theory Spec2Isabelle
  imports Main
begin

section \<open>The launcher of Bazarr: supervision of one worker subprocess\<close>

text \<open>
  The theory embeds \<^verbatim>\<open>bazarr/launcher.py\<close> (and the part of
  \<^verbatim>\<open>bazarr/app/get_args.py\<close> the launcher reads) as functions over an explicit
  world: the files the launcher looks at, the table of processes, the environment, and the
  trace of the effects it performs, in the order it performs them.
\<close>

subsection \<open>Constants of \<^verbatim>\<open>bazarr.literals\<close>\<close>

text \<open>
  The module \<^verbatim>\<open>bazarr.literals\<close> is imported by the launcher and is not among the
  sources; its constants are a parameter of every function that reads them.
\<close>

record literals =
  EXIT_PYTHON_UPGRADE_NEEDED :: int
  EXIT_NORMAL :: int
  FILE_RESTART :: string
  FILE_STOP :: string
  ENV_RESTARTFILE :: string
  ENV_STOPFILE :: string
  EXIT_INTERRUPT :: int

subsection \<open>Python built-ins the launcher calls\<close>

text \<open>
  Text is a list of code points below 256. \<^verbatim>\<open>str(n)\<close> of a non-negative integer is
  its decimal numeral, of a negative one the numeral after a minus sign.
\<close>

definition digit_char :: "nat \<Rightarrow> char" where
  "digit_char d = ''0123456789'' ! (d mod 10)"

fun str_nat :: "nat \<Rightarrow> string" where
  "str_nat n = (if n < 10 then [digit_char n] else str_nat (n div 10) @ [digit_char (n mod 10)])"

declare str_nat.simps [simp del]

definition str_int :: "int \<Rightarrow> string" where
  "str_int i = (if i < 0 then CHR ''-'' # str_nat (nat (- i)) else str_nat (nat i))"

text \<open>
  \<^verbatim>\<open>int(s)\<close> in base 10: blanks, an optional sign, then digits in which single
  underscores may separate two digits, then blanks up to the end. The blanks of \<^verbatim>\<open>int\<close>
  are tab, line feed, vertical tab, form feed, carriage return and space, and the two blank
  code points U+0085 and U+00A0. \<^verbatim>\<open>None\<close> stands for \<^verbatim>\<open>ValueError\<close>. An
  interpreter with a limit on the number of digits (\<^verbatim>\<open>sys.get_int_max_str_digits()\<close>,
  0 for no limit) refuses a numeral of more than 640 digits that exceeds the limit.
\<close>

definition int_space :: "char \<Rightarrow> bool" where
  "int_space c = (c \<in> set [CHR 0x09, CHR 0x0A, CHR 0x0B, CHR 0x0C, CHR 0x0D, CHR 0x20,
                            CHR 0x85, CHR 0xA0])"

definition is_digit :: "char \<Rightarrow> bool" where
  "is_digit c = (c \<in> set ''0123456789'')"

definition digit_val :: "char \<Rightarrow> nat" where
  "digit_val c = of_char c - 48"

fun int_digits :: "string \<Rightarrow> nat list option" where
  "int_digits [] = None"
| "int_digits [c] = (if is_digit c then Some [digit_val c] else None)"
| "int_digits (c # d # cs) =
     (if is_digit c
      then (if d = CHR ''_'' then map_option (Cons (digit_val c)) (int_digits cs)
            else map_option (Cons (digit_val c)) (int_digits (d # cs)))
      else None)"

definition py_int :: "nat \<Rightarrow> string \<Rightarrow> int option" where
  "py_int lim s =
     (let t = dropWhile int_space s;
          neg = (case t of [] \<Rightarrow> False | c # _ \<Rightarrow> c = CHR ''-'');
          u = (case t of [] \<Rightarrow> [] | c # r \<Rightarrow> if c = CHR ''+'' \<or> c = CHR ''-'' then r else t);
          body = takeWhile (\<lambda>c. is_digit c \<or> c = CHR ''_'') u;
          rest = dropWhile (\<lambda>c. is_digit c \<or> c = CHR ''_'') u
      in if \<not> list_all int_space rest then None
         else (case int_digits body of
                 None \<Rightarrow> None
               | Some ds \<Rightarrow>
                   if 640 < length ds \<and> 0 < lim \<and> lim < length ds then None
                   else (let v = int (foldl (\<lambda>a d. 10 * a + d) 0 ds)
                         in Some (if neg then - v else v))))"

text \<open>
  \<^verbatim>\<open>s.split()\<close> and \<^verbatim>\<open>s.strip()\<close> cut at the blanks of \<^verbatim>\<open>str\<close>: those of
  \<^verbatim>\<open>int\<close> and the four separators 0x1C to 0x1F.
\<close>

definition str_space :: "char \<Rightarrow> bool" where
  "str_space c = (int_space c \<or> c \<in> set [CHR 0x1C, CHR 0x1D, CHR 0x1E, CHR 0x1F])"

fun split_from :: "string \<Rightarrow> string \<Rightarrow> string list" where
  "split_from cur [] = (if cur = [] then [] else [cur])"
| "split_from cur (c # cs) =
     (if str_space c then (if cur = [] then split_from [] cs else cur # split_from [] cs)
      else split_from (cur @ [c]) cs)"

definition py_split :: "string \<Rightarrow> string list" where
  "py_split s = split_from [] s"

definition py_strip :: "string \<Rightarrow> string" where
  "py_strip s = rev (dropWhile str_space (rev (dropWhile str_space s)))"

definition startswith :: "string \<Rightarrow> string \<Rightarrow> bool" where
  "startswith s p = (take (length p) s = p)"

text \<open>\<^verbatim>\<open>file.readline()\<close> on a fresh text file: up to and including the first line feed.\<close>

fun readline :: "string \<Rightarrow> string" where
  "readline [] = []"
| "readline (c # cs) = (if c = CHR 0x0A then [c] else c # readline cs)"

subsection \<open>The world\<close>

text \<open>
  A path holds nothing or a node: its text as a text-mode read delivers it, decoded and with
  line ends translated (\<^verbatim>\<open>None\<close> when opening, reading or decoding it fails), and
  whether \<^verbatim>\<open>os.remove\<close> succeeds on it (when it does not, the call raises an
  \<^verbatim>\<open>OSError\<close> other than \<^verbatim>\<open>FileNotFoundError\<close>). A process is running or has exited
  with a status; \<open>sigterm_exit\<close> tells, for each process identifier, the status a running
  process takes once the termination signal reaches it, or that it never exits. A handle is
  what \<^verbatim>\<open>subprocess.Popen\<close> returns: the identifier and the command line.
\<close>

record fnode =
  content :: "string option"
  removable :: bool

datatype proc = Running | Exited int

record popen =
  pid :: nat
  args :: "string list"

datatype event =
    Print string
  | Unlink string
  | Terminate nat
  | Wait nat
  | Popen "string list" nat
  | Putenv string string
  | Signal_SIGINT
  | Run "string list"

datatype exn = FileNotFoundError | NotADirectoryError | PermissionError | OSError | NameError

datatype 'a outcome = Returns 'a | SystemExit int | Raises exn | Blocks

record world =
  files :: "string \<rightharpoonup> fnode"
  procs :: "nat \<rightharpoonup> proc"
  sigterm_exit :: "nat \<Rightarrow> int option"
  next_pid :: nat
  popen_ok :: bool
  trace :: "event list"
  argv :: "string list"
  environ :: "string \<rightharpoonup> string"
  platform :: string
  python_version :: "nat \<times> nat \<times> string"
  python_path :: string
  main_script :: string
  args_config_dir :: string
  ntpath_join :: "string \<Rightarrow> string \<Rightarrow> string"
  absent_error :: "string \<Rightarrow> exn"
  pids :: "nat list"
  probe_ok :: bool
  task_image :: "nat \<Rightarrow> string"
  task_mem :: "nat \<Rightarrow> string"
  int_max_str_digits :: nat

definition emit :: "event \<Rightarrow> world \<Rightarrow> world" where
  "emit e w = w\<lparr>trace := trace w @ [e]\<rparr>"

definition print :: "string \<Rightarrow> world \<Rightarrow> world" where
  "print s w = emit (Print s) w"

definition bind :: "'a outcome \<times> world \<Rightarrow> ('a \<Rightarrow> world \<Rightarrow> 'b outcome \<times> world) \<Rightarrow> 'b outcome \<times> world" where
  "bind m f =
     (case m of
        (Returns x, w) \<Rightarrow> f x w
      | (SystemExit c, w) \<Rightarrow> (SystemExit c, w)
      | (Raises e, w) \<Rightarrow> (Raises e, w)
      | (Blocks, w) \<Rightarrow> (Blocks, w))"

definition os_path_exists :: "string \<Rightarrow> world \<Rightarrow> bool" where
  "os_path_exists p w = (files w p \<noteq> None)"

definition os_remove :: "string \<Rightarrow> world \<Rightarrow> unit outcome \<times> world" where
  "os_remove p w =
     (let w1 = emit (Unlink p) w
      in case files w p of
           None \<Rightarrow> (Raises (absent_error w p), w1)
         | Some f \<Rightarrow>
             if removable f then (Returns (), w1\<lparr>files := (files w)(p := None)\<rparr>)
             else (Raises PermissionError, w1))"

text \<open>
  \<^verbatim>\<open>os.path.join(a, b)\<close> with two components: on Windows it is \<^verbatim>\<open>ntpath.join\<close>,
  which the world supplies; elsewhere it is \<^verbatim>\<open>posixpath.join\<close>.
\<close>

definition os_path_join :: "world \<Rightarrow> string \<Rightarrow> string \<Rightarrow> string" where
  "os_path_join w a b =
     (if startswith (platform w) ''win'' then ntpath_join w a b
      else if startswith b ''/'' then b
      else if a = [] \<or> last a = CHR ''/'' then a @ b
      else a @ ''/'' @ b)"


subsection \<open>\<^verbatim>\<open>launcher.py\<close>\<close>

definition exit_program :: "int \<Rightarrow> world \<Rightarrow> 'a outcome \<times> world" where
  "exit_program status_code w =
     (SystemExit status_code,
      print (''Bazarr exited with status code '' @ str_int status_code @ ''.'') w)"

definition start_bazarr :: "popen option \<Rightarrow> world \<Rightarrow> popen outcome \<times> world" where
  "start_bazarr child_process w =
     (let script = [python_path w, ''-u'', main_script w] @ drop 1 (argv w)
      in if \<not> popen_ok w then (Raises OSError, w)
         else (let ep = \<lparr>pid = next_pid w, args = script\<rparr>;
                   w1 = emit (Popen script (pid ep))
                          (w\<lparr>procs := (procs w)(pid ep \<mapsto> Running), next_pid := Suc (next_pid w),
                             pids := pids w @ [pid ep]\<rparr>)
               in (Returns ep,
                   print (''Bazarr starting child process with PID '' @ str_nat (pid ep) @ ''...'') w1)))"

definition terminate_child :: "popen \<Rightarrow> world \<Rightarrow> unit outcome \<times> world" where
  "terminate_child child_process w =
     (let w1 = print (''Terminating child process with PID '' @ str_nat (pid child_process)) w;
          w2 = (if procs w1 (pid child_process) = Some Running
                then emit (Terminate (pid child_process)) w1 else w1);
          w3 = emit (Wait (pid child_process)) w2
      in if procs w1 (pid child_process) = Some Running
         then (case sigterm_exit w3 (pid child_process) of
                 Some c \<Rightarrow> (Returns (), w3\<lparr>procs := (procs w3)(pid child_process \<mapsto> Exited c)\<rparr>)
               | None \<Rightarrow> (Blocks, w3))
         else (Returns (), w3))"

definition get_stop_status_code :: "literals \<Rightarrow> string \<Rightarrow> world \<Rightarrow> int" where
  "get_stop_status_code L input_file w =
     (case files w input_file of
        None \<Rightarrow> EXIT_NORMAL L
      | Some f \<Rightarrow>
          (case content f of
             None \<Rightarrow> EXIT_NORMAL L
           | Some txt \<Rightarrow>
               (case py_int (int_max_str_digits w) (readline txt) of
                  Some status_code \<Rightarrow> status_code
                | None \<Rightarrow> EXIT_NORMAL L)))"

definition check_status :: "literals \<Rightarrow> popen \<Rightarrow> string \<Rightarrow> string \<Rightarrow> world \<Rightarrow> popen outcome \<times> world" where
  "check_status L child_process restart_file stop_file w =
     (if os_path_exists stop_file w then
        (let status_code = get_stop_status_code L stop_file w;
             w1 = (case os_remove stop_file (print ''Deleting stop file...'' w) of
                     (Returns _, w') \<Rightarrow> w'
                   | (_, w') \<Rightarrow> print ''Unable to delete stop file.'' w')
         in bind (terminate_child child_process w1) (\<lambda>_. exit_program status_code))
      else if os_path_exists restart_file w then
        (let w1 = (case os_remove restart_file (print ''Deleting restart file...'' w) of
                     (Returns _, w') \<Rightarrow> w'
                   | (_, w') \<Rightarrow> print ''Unable to delete restart file.'' w')
         in bind (terminate_child child_process w1)
              (\<lambda>_ w2. start_bazarr (Some child_process) (print ''Bazarr is restarting...'' w2)))
      else (Returns child_process, w))"

definition commands :: "nat \<Rightarrow> (string \<times> string list) list" where
  "commands p =
     [(''win'', [''tasklist'', ''/FI'', ''PID eq '' @ str_nat p]),
      (''linux'', [''ps'', ''-eo'', ''pid'']),
      (''darwin'', [''ps'', ''-ax'', ''-o'', ''pid''])]"

text \<open>
  The process listing. \<open>pids\<close> lists the process identifiers in use on the machine; those
  outside the process table belong to other programs. \<^verbatim>\<open>ps\<close> shows a process that runs
  and also one that has exited but has not been waited for; the launcher waits only in
  \<open>terminate_child\<close>, which records it in the trace. \<^verbatim>\<open>tasklist\<close> shows running
  processes only. \<^verbatim>\<open>subprocess.run\<close> raises when the command cannot be started.
\<close>

definition listed :: "world \<Rightarrow> nat \<Rightarrow> bool" where
  "listed w q =
     (case procs w q of
        None \<Rightarrow> True
      | Some Running \<Rightarrow> True
      | Some (Exited c) \<Rightarrow> \<not> startswith (platform w) ''win'' \<and> Wait q \<notin> set (trace w))"

definition ps_stdout :: "world \<Rightarrow> string" where
  "ps_stdout w =
     ''PID'' @ [CHR 0x0A] @ concat (map (\<lambda>q. str_nat q @ [CHR 0x0A]) (filter (listed w) (pids w)))"

definition tasklist_stdout :: "world \<Rightarrow> string \<Rightarrow> string" where
  "tasklist_stdout w flt =
     (case find (\<lambda>q. flt = ''PID eq '' @ str_nat q \<and> listed w q) (pids w) of
        None \<Rightarrow> ''INFO: No tasks are running which match the specified criteria.'' @ [CHR 0x0A]
      | Some q \<Rightarrow>
          [CHR 0x0A] @ ''Image Name PID Session Name Session# Mem Usage'' @ [CHR 0x0A]
          @ ''========== === ============ ======== =========='' @ [CHR 0x0A]
          @ task_image w q @ '' '' @ str_nat q @ '' Console 1 '' @ task_mem w q @ '' K''
          @ [CHR 0x0A])"

definition subprocess_run :: "string list \<Rightarrow> world \<Rightarrow> string outcome \<times> world" where
  "subprocess_run cmd w =
     (if \<not> probe_ok w then (Raises FileNotFoundError, w)
      else (Returns (case cmd of
                       [c, a, flt] \<Rightarrow> if c = ''tasklist'' then tasklist_stdout w flt else ps_stdout w
                     | _ \<Rightarrow> ps_stdout w),
            emit (Run cmd) w))"

definition is_process_running :: "nat \<Rightarrow> world \<Rightarrow> bool outcome \<times> world" where
  "is_process_running p w =
     (case find (\<lambda>(key, cmd). startswith (platform w) key) (commands p) of
        Some (key, cmd) \<Rightarrow>
          bind (subprocess_run cmd w) (\<lambda>out w1. (Returns (str_nat p \<in> set (py_split out)), w1))
      | None \<Rightarrow> (Returns False, print ''Unsupported OS'' w))"

text \<open>
  The handler receives the flag \<^verbatim>\<open>interrupted[0]\<close> and returns it as it leaves it. The
  signal number is unused, as in the source; the frame is left out.
\<close>

definition interrupt_handler :: "literals \<Rightarrow> int \<Rightarrow> popen \<Rightarrow> bool \<Rightarrow> world \<Rightarrow> unit outcome \<times> bool \<times> world" where
  "interrupt_handler L signum child_process interrupted w =
     (if \<not> interrupted then (Returns (), True, print ''Handling keyboard interrupt...'' w)
      else (case is_process_running (pid child_process) w of
              (Returns running, w1) \<Rightarrow>
                if \<not> running then (SystemExit (EXIT_INTERRUPT L), interrupted, w1)
                else (Returns (), interrupted, w1)
            | (SystemExit c, w1) \<Rightarrow> (SystemExit c, interrupted, w1)
            | (Raises e, w1) \<Rightarrow> (Raises e, interrupted, w1)
            | (Blocks, w1) \<Rightarrow> (Blocks, interrupted, w1)))"


definition python_version_str :: "world \<Rightarrow> string" where
  "python_version_str w =
     (case python_version w of
        (major, minor, patch) \<Rightarrow> str_nat major @ ''.'' @ str_nat minor @ ''.'' @ patch)"

definition check_python_version :: "literals \<Rightarrow> world \<Rightarrow> unit outcome \<times> world" where
  "check_python_version L w =
     (case python_version w of
        (major, minor, patch) \<Rightarrow>
          if major < 3 then
            exit_program (EXIT_PYTHON_UPGRADE_NEEDED L)
              (print (''Python 3.8.0 or greater required. Current version is ''
                      @ python_version_str w @ ''. Please upgrade Python.'') w)
          else if major = 3 \<and> 12 < minor then
            (Returns (),
             print (''Python version greater than 3.12.x is unsupported. Current version is ''
                    @ python_version_str w
                    @ ''. Keep in mind that even if it works, you'' @ [CHR 0x27]
                    @ ''re on your own.'') w)
          else if (major = 3 \<and> minor < 8) \<or> major \<noteq> 3 then
            exit_program (EXIT_PYTHON_UPGRADE_NEEDED L)
              (print (''Python 3.8.0 or greater required. Current version is ''
                      @ python_version_str w @ ''. Please upgrade Python.'') w)
          else (Returns (), w))"

subsection \<open>\<^verbatim>\<open>get_args.py\<close>: the configuration directory\<close>

text \<open>
  The launcher reads one attribute of the parsed arguments, \<^verbatim>\<open>args.config_dir\<close>. The
  parsing is done by the library \<^verbatim>\<open>argparse\<close> when \<^verbatim>\<open>get_args\<close> is imported,
  before \<^verbatim>\<open>main\<close> runs, and ends the program when it refuses the command line; the
  world holds its result, the field \<open>args_config_dir\<close>.
\<close>

text \<open>
  The supervisor's arguments without those it consumes itself, in the words of the
  specification: the command line after the program name, with every \<^verbatim>\<open>-c\<close>/\<^verbatim>\<open>--config\<close>
  option and its value taken out.
\<close>

fun spec_passthrough_args :: "string list \<Rightarrow> string list" where
  "spec_passthrough_args (a # v # rest) =
     (if a = ''-c'' \<or> a = ''--config'' then spec_passthrough_args rest
      else a # spec_passthrough_args (v # rest))"
| "spec_passthrough_args xs = xs"

subsection \<open>\<^verbatim>\<open>main\<close>\<close>

text \<open>\<^verbatim>\<open>os.environ[k] = v\<close>; the names are kept as written.\<close>

definition putenv :: "string \<Rightarrow> string \<Rightarrow> world \<Rightarrow> world" where
  "putenv k v w = emit (Putenv k v) (w\<lparr>environ := (environ w)(k \<mapsto> v)\<rparr>)"

text \<open>\<^verbatim>\<open>try: os.remove(p)  except FileNotFoundError: pass\<close>\<close>

definition remove_leftover :: "string \<Rightarrow> world \<Rightarrow> unit outcome \<times> world" where
  "remove_leftover p w =
     (case os_remove p w of
        (Raises FileNotFoundError, w') \<Rightarrow> (Returns (), w')
      | r \<Rightarrow> r)"

text \<open>
  \<open>startup\<close> is \<^verbatim>\<open>main\<close> up to the loop, in a run in which no signal arrives; it
  returns the first handle and the two paths. After it \<^verbatim>\<open>main\<close> calls
  \<open>check_status\<close> every five seconds, outside any \<^verbatim>\<open>try\<close>, so that what a tick
  raises ends \<^verbatim>\<open>main\<close>.
\<close>

definition startup :: "literals \<Rightarrow> world \<Rightarrow> (popen \<times> string \<times> string) outcome \<times> world" where
  "startup L w =
     bind (check_python_version L w) (\<lambda>_ w1.
       let w2 = emit Signal_SIGINT w1;
           restart_file = os_path_join w (args_config_dir w) (FILE_RESTART L);
           stop_file = os_path_join w (args_config_dir w) (FILE_STOP L);
           w3 = putenv (ENV_STOPFILE L) stop_file w2;
           w4 = putenv (ENV_RESTARTFILE L) restart_file w3
       in bind (remove_leftover restart_file w4) (\<lambda>_ w5.
            bind (remove_leftover stop_file w5) (\<lambda>_ w6.
              bind (start_bazarr None w6) (\<lambda>child_process w7.
                (Returns (child_process, restart_file, stop_file), w7)))))"

subsection \<open>A concrete world\<close>

text \<open>
  A supervisor started as \<^verbatim>\<open>bazarr.py -c /tmp/x --debug\<close> on Linux, its worker running
  as process 41, and a stop file that asks for exit code 7.
\<close>

definition example_literals :: literals where
  "example_literals =
     \<lparr>EXIT_PYTHON_UPGRADE_NEEDED = - 103, EXIT_NORMAL = 0,
      FILE_RESTART = ''restart'', FILE_STOP = ''stop'',
      ENV_RESTARTFILE = ''RESTARTFILE'', ENV_STOPFILE = ''STOPFILE'',
      EXIT_INTERRUPT = - 100\<rparr>"

definition example_worker :: popen where
  "example_worker =
     \<lparr>pid = 41,
      args = [''/usr/bin/python3'', ''-u'', ''/opt/bazarr/bazarr/main.py'',
              ''-c'', ''/tmp/x'', ''--debug'']\<rparr>"

definition example_world :: world where
  "example_world =
     \<lparr>files = [''/tmp/x/stop'' \<mapsto> \<lparr>content = Some (''7'' @ [CHR 0x0A]), removable = True\<rparr>],
      procs = [41 \<mapsto> Running],
      sigterm_exit = (\<lambda>p. Some (- 15)),
      next_pid = 42,
      popen_ok = True,
      trace = [],
      argv = [''bazarr.py'', ''-c'', ''/tmp/x'', ''--debug''],
      environ = Map.empty,
      platform = ''linux'',
      python_version = (3, 11, ''4''),
      python_path = ''/usr/bin/python3'',
      main_script = ''/opt/bazarr/bazarr/main.py'',
      args_config_dir = ''/tmp/x'',
      ntpath_join = (\<lambda>a b. a @ [CHR 0x5C] @ b),
      absent_error = (\<lambda>p. FileNotFoundError),
      pids = [1, 41],
      probe_ok = True,
      task_image = (\<lambda>q. ''python.exe''),
      task_mem = (\<lambda>q. ''12,345''),
      int_max_str_digits = 4300\<rparr>"

text \<open>
  Variants of it: both files present; only a restart file, which cannot be deleted; a stop
  file whose first line is no number and which cannot be deleted; a stop file that cannot be
  read; no file at all.
\<close>

definition both_world :: world where
  "both_world =
     example_world
       \<lparr>files := [''/tmp/x/stop'' \<mapsto> \<lparr>content = Some (''7'' @ [CHR 0x0A]), removable = True\<rparr>,
                  ''/tmp/x/restart'' \<mapsto> \<lparr>content = Some [], removable = True\<rparr>]\<rparr>"

definition restart_world :: world where
  "restart_world =
     example_world
       \<lparr>files := [''/tmp/x/restart'' \<mapsto> \<lparr>content = Some [], removable = False\<rparr>]\<rparr>"

definition garbled_world :: world where
  "garbled_world =
     example_world
       \<lparr>files := [''/tmp/x/stop'' \<mapsto> \<lparr>content = Some (''abc'' @ [CHR 0x0A]), removable = False\<rparr>]\<rparr>"

definition unreadable_world :: world where
  "unreadable_world =
     example_world
       \<lparr>files := [''/tmp/x/stop'' \<mapsto> \<lparr>content = None, removable = True\<rparr>]\<rparr>"

definition idle_world :: world where
  "idle_world = example_world\<lparr>files := Map.empty\<rparr>"

text \<open>
  Further variants: a worker that ignores the termination signal; a stop file that asks for
  exit code 256; the worker running on a platform the launcher has no listing command for; a
  worker that has exited and has not been waited for; a worker that has exited and has been
  waited for.
\<close>

definition stubborn_world :: world where
  "stubborn_world = both_world\<lparr>sigterm_exit := (\<lambda>p. None)\<rparr>"



definition defunct_world :: world where
  "defunct_world = idle_world\<lparr>procs := [41 \<mapsto> Exited 0]\<rparr>"


subsection \<open>Vocabulary of the statements\<close>

text \<open>
  The worker leaves when told to: it has already exited, or it is running and takes an exit
  status once the termination signal reaches it. Then the wait of \<open>terminate_child\<close>,
  which has no timeout, comes back.
\<close>

definition child_exits :: "popen \<Rightarrow> world \<Rightarrow> bool" where
  "child_exits child_process w =
     (case procs w (pid child_process) of
        Some Running \<Rightarrow> sigterm_exit w (pid child_process) \<noteq> None
      | _ \<Rightarrow> True)"

text \<open>
  The stop file at a path gives no exit code: there is no file, it cannot be read, or its
  first line (the empty line of an empty file included) is not a decimal integer.
\<close>

definition no_stop_code :: "string \<Rightarrow> world \<Rightarrow> bool" where
  "no_stop_code p w =
     (case files w p of
        None \<Rightarrow> True
      | Some f \<Rightarrow>
          (case content f of
             None \<Rightarrow> True
           | Some txt \<Rightarrow> py_int (int_max_str_digits w) (readline txt) = None))"

text \<open>The events a run added to the trace.\<close>

definition new_events :: "world \<Rightarrow> world \<Rightarrow> event list" where
  "new_events w w' = drop (length (trace w)) (trace w')"

text \<open>
  The platforms for which the launcher has a listing command, and the command it runs.
\<close>

definition supported_platform :: "world \<Rightarrow> bool" where
  "supported_platform w =
     (startswith (platform w) ''win'' \<or> startswith (platform w) ''linux''
      \<or> startswith (platform w) ''darwin'')"

definition probe_command :: "world \<Rightarrow> nat \<Rightarrow> string list" where
  "probe_command w p =
     (case find (\<lambda>(key, cmd). startswith (platform w) key) (commands p) of
        Some (key, cmd) \<Rightarrow> cmd
      | None \<Rightarrow> [])"

text \<open>
  The order of the startup sequence in the words of the specification, as far as the
  interrupt handler goes: the handler is installed after the first worker is spawned, and not
  before.
\<close>

definition is_popen :: "event \<Rightarrow> bool" where
  "is_popen e = (case e of Popen script p \<Rightarrow> True | _ \<Rightarrow> False)"

definition spec_handler_last :: "event list \<Rightarrow> bool" where
  "spec_handler_last evs =
     (Signal_SIGINT \<in> set (dropWhile (\<lambda>e. \<not> is_popen e) evs)
      \<and> Signal_SIGINT \<notin> set (takeWhile (\<lambda>e. \<not> is_popen e) evs))"

section \<open>Facts about the steps\<close>

lemma emit_fields [simp]:
  "files (emit e w) = files w" "procs (emit e w) = procs w"
  "sigterm_exit (emit e w) = sigterm_exit w" "next_pid (emit e w) = next_pid w"
  "popen_ok (emit e w) = popen_ok w" "trace (emit e w) = trace w @ [e]"
  "argv (emit e w) = argv w" "environ (emit e w) = environ w"
  "platform (emit e w) = platform w" "python_version (emit e w) = python_version w"
  "python_path (emit e w) = python_path w" "main_script (emit e w) = main_script w"
  "args_config_dir (emit e w) = args_config_dir w" "ntpath_join (emit e w) = ntpath_join w"
  "absent_error (emit e w) = absent_error w" "pids (emit e w) = pids w"
  "probe_ok (emit e w) = probe_ok w" "int_max_str_digits (emit e w) = int_max_str_digits w"
  by (simp_all add: emit_def)

text \<open>What \<open>terminate_child\<close> does to a running worker, and to one that is not running.\<close>

lemma terminate_child_running:
  "procs w (pid c) = Some Running \<Longrightarrow>
   terminate_child c w =
     (case sigterm_exit w (pid c) of
        Some x \<Rightarrow> (Returns (),
          w\<lparr>procs := (procs w)(pid c \<mapsto> Exited x),
            trace := trace w @ [Print (''Terminating child process with PID '' @ str_nat (pid c)),
                                Terminate (pid c), Wait (pid c)]\<rparr>)
      | None \<Rightarrow> (Blocks,
          w\<lparr>trace := trace w @ [Print (''Terminating child process with PID '' @ str_nat (pid c)),
                                Terminate (pid c), Wait (pid c)]\<rparr>))"
  by (simp add: terminate_child_def print_def emit_def split: option.splits)

lemma terminate_child_gone:
  "procs w (pid c) \<noteq> Some Running \<Longrightarrow>
   terminate_child c w =
     (Returns (),
      w\<lparr>trace := trace w @ [Print (''Terminating child process with PID '' @ str_nat (pid c)),
                            Wait (pid c)]\<rparr>)"
  by (simp add: terminate_child_def print_def emit_def)

text \<open>
  A tick that finds the stop file, and one that finds the restart file only: the attempt to
  delete the file, the line printed when it fails, and then the termination of the worker.
\<close>

lemma stop_tick:
  assumes "files w sf = Some f"
  shows "check_status L c rf sf w =
           bind (terminate_child c
                   (w\<lparr>trace := trace w @ [Print ''Deleting stop file...'', Unlink sf]
                               @ (if removable f then [] else [Print ''Unable to delete stop file.'']),
                      files := (if removable f then (files w)(sf := None) else files w)\<rparr>))
                (\<lambda>_. exit_program (get_stop_status_code L sf w))"
  using assms
  by (simp add: check_status_def os_path_exists_def os_remove_def print_def emit_def Let_def)

lemma restart_tick:
  assumes "files w sf = None" and "files w rf = Some f"
  shows "check_status L c rf sf w =
           bind (terminate_child c
                   (w\<lparr>trace := trace w @ [Print ''Deleting restart file...'', Unlink rf]
                               @ (if removable f then [] else [Print ''Unable to delete restart file.'']),
                      files := (if removable f then (files w)(rf := None) else files w)\<rparr>))
                (\<lambda>_ w2. start_bazarr (Some c) (print ''Bazarr is restarting...'' w2))"
  using assms
  by (simp add: check_status_def os_path_exists_def os_remove_def print_def emit_def Let_def)

lemma stop_tick_outcome:
  assumes "files w sf = Some f"
  shows "fst (check_status L c rf sf w) =
           (if child_exits c w then SystemExit (get_stop_status_code L sf w) else Blocks)"
proof (cases "procs w (pid c) = Some Running")
  case True
  then show ?thesis
    by (cases "sigterm_exit w (pid c)")
       (simp_all add: stop_tick [OF assms] terminate_child_running bind_def exit_program_def
          child_exits_def)
next
  case False
  then have "child_exits c w"
    by (auto simp: child_exits_def split: option.splits proc.splits)
  with False show ?thesis
    by (simp add: stop_tick [OF assms] terminate_child_gone bind_def exit_program_def)
qed

lemma child_exits_cases:
  "child_exits c w \<longleftrightarrow> \<not> (procs w (pid c) = Some Running \<and> sigterm_exit w (pid c) = None)"
  by (auto simp: child_exits_def split: option.splits proc.splits)

lemma worker_cases:
  obtains (gone) "procs w (pid c) \<noteq> Some Running"
    | (leaves) x where "procs w (pid c) = Some Running" "sigterm_exit w (pid c) = Some x"
    | (stays) "procs w (pid c) = Some Running" "sigterm_exit w (pid c) = None"
  by (cases "sigterm_exit w (pid c)") auto

lemma stop_tick_effects:
  assumes "files w sf = Some f"
  shows "trace (snd (check_status L c rf sf w)) =
           trace w @ [Print ''Deleting stop file...'', Unlink sf]
           @ (if removable f then [] else [Print ''Unable to delete stop file.''])
           @ [Print (''Terminating child process with PID '' @ str_nat (pid c))]
           @ (if procs w (pid c) = Some Running then [Terminate (pid c)] else [])
           @ [Wait (pid c)]
           @ (if child_exits c w
              then [Print (''Bazarr exited with status code ''
                           @ str_int (get_stop_status_code L sf w) @ ''.'')]
              else [])
         \<and> procs (snd (check_status L c rf sf w)) =
           (if procs w (pid c) = Some Running
            then (case sigterm_exit w (pid c) of
                    Some x \<Rightarrow> (procs w)(pid c \<mapsto> Exited x)
                  | None \<Rightarrow> procs w)
            else procs w)
         \<and> files (snd (check_status L c rf sf w)) =
           (if removable f then (files w)(sf := None) else files w)
         \<and> next_pid (snd (check_status L c rf sf w)) = next_pid w"
proof (cases rule: worker_cases [of w c])
  case gone
  then show ?thesis
    by (simp add: stop_tick [OF assms] terminate_child_gone bind_def exit_program_def
          print_def child_exits_cases)
next
  case leaves
  then show ?thesis
    by (simp add: stop_tick [OF assms] terminate_child_running bind_def exit_program_def
          print_def child_exits_cases)
next
  case stays
  then show ?thesis
    by (simp add: stop_tick [OF assms] terminate_child_running bind_def exit_program_def
          print_def child_exits_cases)
qed

lemma restart_tick_effects:
  assumes "files w sf = None" and "files w rf = Some f"
  shows "fst (check_status L c rf sf w) =
           (if \<not> child_exits c w then Blocks
            else if popen_ok w
            then Returns \<lparr>pid = next_pid w,
                          args = [python_path w, ''-u'', main_script w] @ drop 1 (argv w)\<rparr>
            else Raises OSError)
         \<and> trace (snd (check_status L c rf sf w)) =
           trace w @ [Print ''Deleting restart file...'', Unlink rf]
           @ (if removable f then [] else [Print ''Unable to delete restart file.''])
           @ [Print (''Terminating child process with PID '' @ str_nat (pid c))]
           @ (if procs w (pid c) = Some Running then [Terminate (pid c)] else [])
           @ [Wait (pid c)]
           @ (if child_exits c w then [Print ''Bazarr is restarting...''] else [])
           @ (if child_exits c w \<and> popen_ok w
              then [Popen ([python_path w, ''-u'', main_script w] @ drop 1 (argv w)) (next_pid w),
                    Print (''Bazarr starting child process with PID '' @ str_nat (next_pid w)
                           @ ''...'')]
              else [])
         \<and> procs (snd (check_status L c rf sf w)) =
           (if procs w (pid c) = Some Running
            then (case sigterm_exit w (pid c) of
                    Some x \<Rightarrow>
                      if popen_ok w then (procs w)(pid c \<mapsto> Exited x, next_pid w \<mapsto> Running)
                      else (procs w)(pid c \<mapsto> Exited x)
                  | None \<Rightarrow> procs w)
            else if popen_ok w then (procs w)(next_pid w \<mapsto> Running) else procs w)
         \<and> files (snd (check_status L c rf sf w)) =
           (if removable f then (files w)(rf := None) else files w)"
proof (cases rule: worker_cases [of w c])
  case gone
  then show ?thesis
    by (simp add: restart_tick [OF assms] terminate_child_gone bind_def start_bazarr_def
          print_def child_exits_cases Let_def)
next
  case leaves
  then show ?thesis
    by (simp add: restart_tick [OF assms] terminate_child_running bind_def start_bazarr_def
          print_def child_exits_cases Let_def)
next
  case stays
  then show ?thesis
    by (simp add: restart_tick [OF assms] terminate_child_running bind_def start_bazarr_def
          print_def child_exits_cases Let_def)
qed

lemma no_stop_code_cases:
  "no_stop_code p w \<longleftrightarrow>
     files w p = None
     \<or> (\<exists>f. files w p = Some f \<and> content f = None)
     \<or> (\<exists>f txt. files w p = Some f \<and> content f = Some txt
           \<and> py_int (int_max_str_digits w) (readline txt) = None)"
  by (auto simp: no_stop_code_def split: option.splits)

lemma py_int_empty: "py_int lim (readline []) = None"
  by (simp add: py_int_def)

lemma py_int_abc: "py_int 4300 (readline (''abc'' @ [CHR 0x0A])) = None"
  by (simp add: py_int_def int_space_def is_digit_def)

lemma get_stop_status_code_absent:
  "files w p = None \<Longrightarrow> get_stop_status_code L p w = EXIT_NORMAL L"
  by (simp add: get_stop_status_code_def)

lemma no_stop_code_empty:
  "files w p = Some f \<Longrightarrow> content f = Some [] \<Longrightarrow> no_stop_code p w"
  using py_int_empty by (simp add: no_stop_code_def)

lemma example_worker_facts:
  "pid example_worker = 41" "str_nat 41 = ''41''" "str_nat 42 = ''42''"
  by (simp_all add: example_worker_def str_nat.simps digit_char_def)

lemma example_child_exits:
  "child_exits example_worker example_world" "child_exits example_worker both_world"
  "child_exits example_worker restart_world" "child_exits example_worker garbled_world"
  "child_exits example_worker unreadable_world" "child_exits example_worker idle_world"
  by (simp_all add: child_exits_def example_world_def example_worker_def both_world_def
        restart_world_def garbled_world_def unreadable_world_def idle_world_def)

lemma py_int_7: "py_int 4300 (readline (''7'' @ [CHR 0x0A])) = Some 7"
  by (simp add: py_int_def int_space_def is_digit_def digit_val_def)

section \<open>The stop request\<close>



lemma stubborn_stop:
  "files stubborn_world ''/tmp/x/stop''
     = Some \<lparr>content = Some (''7'' @ [CHR 0x0A]), removable = True\<rparr>"
  "files stubborn_world ''/tmp/x/restart'' = Some \<lparr>content = Some [], removable = True\<rparr>"
  "\<not> child_exits example_worker stubborn_world"
  "get_stop_status_code example_literals ''/tmp/x/stop'' stubborn_world = 7"
  using py_int_7
  by (simp_all add: stubborn_world_def both_world_def example_world_def example_worker_def
        child_exits_def get_stop_status_code_def)




text \<open>
  C2, as the code has it. When both the stop file and the restart file exist, the tick is a
  stop: it tries to delete the stop file, sends the termination signal to the worker if it
  runs, and waits for it; no process is spawned, the tick never hands a handle back to the
  loop, and the restart file is left as it is. If the worker leaves when told to, the worker
  is not running after the wait and the tick ends in \<^verbatim>\<open>SystemExit\<close> with the code
  read from the stop file; if the worker never exits, the tick blocks in the wait.
\<close>

theorem stop_wins_over_restart:
  assumes "files w stop_file = Some f" and "os_path_exists restart_file w"
  shows "new_events w (snd (check_status L c restart_file stop_file w))
           = [Print ''Deleting stop file...'', Unlink stop_file]
             @ (if removable f then [] else [Print ''Unable to delete stop file.''])
             @ [Print (''Terminating child process with PID '' @ str_nat (pid c))]
             @ (if procs w (pid c) = Some Running then [Terminate (pid c)] else [])
             @ [Wait (pid c)]
             @ (if child_exits c w
                then [Print (''Bazarr exited with status code ''
                             @ str_int (get_stop_status_code L stop_file w) @ ''.'')]
                else [])
       \<and> fst (check_status L c restart_file stop_file w)
           = (if child_exits c w then SystemExit (get_stop_status_code L stop_file w) else Blocks)
       \<and> (\<forall>script p. Popen script p
              \<notin> set (new_events w (snd (check_status L c restart_file stop_file w))))
       \<and> next_pid (snd (check_status L c restart_file stop_file w)) = next_pid w
       \<and> (restart_file \<noteq> stop_file \<longrightarrow>
            files (snd (check_status L c restart_file stop_file w)) restart_file
              = files w restart_file)
       \<and> (child_exits c w \<longrightarrow>
            procs (snd (check_status L c restart_file stop_file w)) (pid c) \<noteq> Some Running)"
proof -
  note eff = stop_tick_effects [OF assms(1), of L c restart_file]
  have ev: "new_events w (snd (check_status L c restart_file stop_file w))
           = [Print ''Deleting stop file...'', Unlink stop_file]
             @ (if removable f then [] else [Print ''Unable to delete stop file.''])
             @ [Print (''Terminating child process with PID '' @ str_nat (pid c))]
             @ (if procs w (pid c) = Some Running then [Terminate (pid c)] else [])
             @ [Wait (pid c)]
             @ (if child_exits c w
                then [Print (''Bazarr exited with status code ''
                             @ str_int (get_stop_status_code L stop_file w) @ ''.'')]
                else [])"
    unfolding new_events_def eff [THEN conjunct1] by simp
  have out: "fst (check_status L c restart_file stop_file w)
           = (if child_exits c w then SystemExit (get_stop_status_code L stop_file w) else Blocks)"
    by (rule stop_tick_outcome [OF assms(1)])
  have 3: "\<forall>script p. Popen script p
              \<notin> set (new_events w (snd (check_status L c restart_file stop_file w)))"
    unfolding ev by simp
  have 4: "next_pid (snd (check_status L c restart_file stop_file w)) = next_pid w"
    by (rule eff [THEN conjunct2, THEN conjunct2, THEN conjunct2])
  have 5: "restart_file \<noteq> stop_file \<longrightarrow>
            files (snd (check_status L c restart_file stop_file w)) restart_file
              = files w restart_file"
    unfolding eff [THEN conjunct2, THEN conjunct2, THEN conjunct1] by simp
  have 6: "child_exits c w \<longrightarrow>
            procs (snd (check_status L c restart_file stop_file w)) (pid c) \<noteq> Some Running"
    unfolding eff [THEN conjunct2, THEN conjunct1]
    by (cases rule: worker_cases [of w c]) (simp_all add: child_exits_cases)
  show ?thesis
    by (intro conjI) (rule ev out 3 4 5 6)+
qed

theorem stop_wins_over_restart_witness:
  "files both_world ''/tmp/x/stop''
     = Some \<lparr>content = Some (''7'' @ [CHR 0x0A]), removable = True\<rparr>
   \<and> os_path_exists ''/tmp/x/restart'' both_world
   \<and> child_exits example_worker both_world
   \<and> new_events both_world
        (snd (check_status example_literals example_worker ''/tmp/x/restart'' ''/tmp/x/stop''
                both_world))
       = [Print ''Deleting stop file...'', Unlink ''/tmp/x/stop'',
          Print ''Terminating child process with PID 41'', Terminate 41, Wait 41,
          Print ''Bazarr exited with status code 7.'']
   \<and> fst (check_status example_literals example_worker ''/tmp/x/restart'' ''/tmp/x/stop'' both_world)
       = SystemExit 7
   \<and> files (snd (check_status example_literals example_worker ''/tmp/x/restart''
                    ''/tmp/x/stop'' both_world)) ''/tmp/x/restart''
       = Some \<lparr>content = Some [], removable = True\<rparr>
   \<and> procs (snd (check_status example_literals example_worker ''/tmp/x/restart''
                    ''/tmp/x/stop'' both_world)) 41 \<noteq> Some Running"
proof -
  have s: "files both_world ''/tmp/x/stop''
     = Some \<lparr>content = Some (''7'' @ [CHR 0x0A]), removable = True\<rparr>"
    by (simp add: both_world_def)
  have r: "os_path_exists ''/tmp/x/restart'' both_world"
    by (simp add: os_path_exists_def both_world_def)
  have code: "get_stop_status_code example_literals ''/tmp/x/stop'' both_world = 7"
    using py_int_7 by (simp add: get_stop_status_code_def both_world_def example_world_def)
  have f: "files both_world ''/tmp/x/restart'' = Some \<lparr>content = Some [], removable = True\<rparr>"
    by (simp add: both_world_def)
  have w: "procs both_world (pid example_worker) = Some Running"
    by (simp add: both_world_def example_world_def example_worker_def)
  have z: "str_int 7 = ''7''"
    by (simp add: str_int_def str_nat.simps digit_char_def)
  from stop_wins_over_restart [OF s r, of example_literals example_worker]
    example_child_exits(2) code f w z s r example_worker_facts
  show ?thesis by simp
qed

text \<open>
  The claim as the specification words it has the supervisor exit on every such tick. With a
  worker that ignores the termination signal the tick blocks in the wait and nothing exits.
\<close>

theorem stop_with_both_files_may_block:
  "os_path_exists ''/tmp/x/stop'' stubborn_world
   \<and> os_path_exists ''/tmp/x/restart'' stubborn_world
   \<and> procs stubborn_world (pid example_worker) = Some Running
   \<and> sigterm_exit stubborn_world (pid example_worker) = None
   \<and> fst (check_status example_literals example_worker ''/tmp/x/restart'' ''/tmp/x/stop''
            stubborn_world) = Blocks"
proof -
  have "fst (check_status example_literals example_worker ''/tmp/x/restart'' ''/tmp/x/stop''
            stubborn_world) = Blocks"
    using stop_tick_outcome [OF stubborn_stop(1), of example_literals example_worker]
      stubborn_stop(3) by simp
  then show ?thesis
    by (simp add: os_path_exists_def stubborn_world_def both_world_def example_world_def
          example_worker_def)
qed

text \<open>
  C6, as the code has it. A stop file that gives no exit code (absent, unreadable, or with a
  first line that \<^verbatim>\<open>int\<close> refuses, the empty line of an empty file included) makes
  \<open>get_stop_status_code\<close> return \<^verbatim>\<open>EXIT_NORMAL\<close>. When the file exists, the tick ends
  in \<^verbatim>\<open>SystemExit(EXIT_NORMAL)\<close> if the worker leaves when told to, and blocks in the
  wait if the worker never exits.
\<close>

theorem malformed_stop_file_exits_normal:
  assumes "no_stop_code stop_file w"
  shows "get_stop_status_code L stop_file w = EXIT_NORMAL L
       \<and> (os_path_exists stop_file w \<longrightarrow>
            fst (check_status L child_process restart_file stop_file w)
              = (if child_exits child_process w then SystemExit (EXIT_NORMAL L) else Blocks))"
proof -
  have code: "get_stop_status_code L stop_file w = EXIT_NORMAL L"
    using assms
    by (simp add: get_stop_status_code_def no_stop_code_def split: option.splits)
  have "fst (check_status L child_process restart_file stop_file w)
              = (if child_exits child_process w then SystemExit (EXIT_NORMAL L) else Blocks)"
    if ex: "os_path_exists stop_file w"
  proof -
    from ex obtain f where f: "files w stop_file = Some f"
      by (auto simp: os_path_exists_def)
    show ?thesis
      using stop_tick_outcome [OF f] code by simp
  qed
  with code show ?thesis by simp
qed

theorem malformed_stop_file_exits_normal_witness:
  "os_path_exists ''/tmp/x/stop'' garbled_world
   \<and> no_stop_code ''/tmp/x/stop'' garbled_world
   \<and> child_exits example_worker garbled_world
   \<and> fst (check_status example_literals example_worker ''/tmp/x/restart'' ''/tmp/x/stop''
            garbled_world) = SystemExit 0
   \<and> os_path_exists ''/tmp/x/stop'' unreadable_world
   \<and> no_stop_code ''/tmp/x/stop'' unreadable_world
   \<and> child_exits example_worker unreadable_world
   \<and> fst (check_status example_literals example_worker ''/tmp/x/restart'' ''/tmp/x/stop''
            unreadable_world) = SystemExit 0"
proof -
  have g1: "os_path_exists ''/tmp/x/stop'' garbled_world"
    by (simp add: os_path_exists_def garbled_world_def)
  have g2: "no_stop_code ''/tmp/x/stop'' garbled_world"
    using py_int_abc by (simp add: no_stop_code_def garbled_world_def example_world_def)
  have u1: "os_path_exists ''/tmp/x/stop'' unreadable_world"
    by (simp add: os_path_exists_def unreadable_world_def)
  have u2: "no_stop_code ''/tmp/x/stop'' unreadable_world"
    by (simp add: no_stop_code_def unreadable_world_def)
  have n: "EXIT_NORMAL example_literals = 0"
    by (simp add: example_literals_def)
  from malformed_stop_file_exits_normal [OF g2, of example_literals example_worker
      "''/tmp/x/restart''"]
    malformed_stop_file_exits_normal [OF u2, of example_literals example_worker
      "''/tmp/x/restart''"]
    g1 g2 u1 u2 n example_child_exits
  show ?thesis by simp
qed

text \<open>
  The claim as the specification words it has the supervisor exit for every such stop file.
  With a worker that ignores the termination signal the tick blocks and nothing exits.
\<close>

theorem malformed_stop_may_block:
  "os_path_exists ''/tmp/x/stop'' (garbled_world\<lparr>sigterm_exit := (\<lambda>p. None)\<rparr>)
   \<and> no_stop_code ''/tmp/x/stop'' (garbled_world\<lparr>sigterm_exit := (\<lambda>p. None)\<rparr>)
   \<and> fst (check_status example_literals example_worker ''/tmp/x/restart'' ''/tmp/x/stop''
            (garbled_world\<lparr>sigterm_exit := (\<lambda>p. None)\<rparr>)) = Blocks"
proof -
  have f: "files (garbled_world\<lparr>sigterm_exit := (\<lambda>p. None)\<rparr>) ''/tmp/x/stop''
           = Some \<lparr>content = Some (''abc'' @ [CHR 0x0A]), removable = False\<rparr>"
    by (simp add: garbled_world_def)
  have e: "\<not> child_exits example_worker (garbled_world\<lparr>sigterm_exit := (\<lambda>p. None)\<rparr>)"
    by (simp add: child_exits_def garbled_world_def example_world_def example_worker_def)
  have n: "no_stop_code ''/tmp/x/stop'' (garbled_world\<lparr>sigterm_exit := (\<lambda>p. None)\<rparr>)"
    using py_int_abc by (simp add: no_stop_code_def garbled_world_def example_world_def)
  from stop_tick_outcome [OF f, of example_literals example_worker] e n f
  show ?thesis by (simp add: os_path_exists_def)
qed

section \<open>The restart request\<close>

text \<open>
  C3. On a tick that finds the restart file and no stop file, the supervisor tries to delete
  the file, sends the termination signal to the worker if it runs, and waits for it. If
  the worker never exits, the tick blocks in the wait and nothing is spawned. Otherwise the
  replacement is spawned by \<open>start_bazarr\<close> from a world in which the old worker is not
  running, reached after the wait for it, and the replacement runs after the tick; when the
  old worker was the only running process, no process runs in the world of the spawn, and
  after the tick only the replacement does. In the trace the signal and the wait for the old
  worker come before the only spawn.
\<close>

theorem restart_waits_for_old_worker:
  assumes "\<not> os_path_exists stop_file w" and "files w restart_file = Some f"
  shows "new_events w (snd (check_status L c restart_file stop_file w))
           = [Print ''Deleting restart file...'', Unlink restart_file]
             @ (if removable f then [] else [Print ''Unable to delete restart file.''])
             @ [Print (''Terminating child process with PID '' @ str_nat (pid c))]
             @ (if procs w (pid c) = Some Running then [Terminate (pid c)] else [])
             @ [Wait (pid c)]
             @ (if child_exits c w then [Print ''Bazarr is restarting...''] else [])
             @ (if child_exits c w \<and> popen_ok w
                then [Popen ([python_path w, ''-u'', main_script w] @ drop 1 (argv w))
                        (next_pid w),
                      Print (''Bazarr starting child process with PID ''
                             @ str_nat (next_pid w) @ ''...'')]
                else [])
       \<and> fst (check_status L c restart_file stop_file w)
           = (if \<not> child_exits c w then Blocks
              else if popen_ok w
              then Returns \<lparr>pid = next_pid w,
                            args = [python_path w, ''-u'', main_script w] @ drop 1 (argv w)\<rparr>
              else Raises OSError)
       \<and> (\<forall>child'. fst (check_status L c restart_file stop_file w) = Returns child' \<longrightarrow>
            procs (snd (check_status L c restart_file stop_file w)) (pid child') = Some Running)
       \<and> (\<not> child_exits c w \<longrightarrow>
            fst (check_status L c restart_file stop_file w) = Blocks
            \<and> (\<forall>script p. Popen script p
                  \<notin> set (new_events w (snd (check_status L c restart_file stop_file w)))))
       \<and> (child_exits c w \<longrightarrow>
            (\<exists>w2. check_status L c restart_file stop_file w = start_bazarr (Some c) w2
               \<and> procs w2 (pid c) \<noteq> Some Running
               \<and> (\<exists>evs. new_events w w2 = evs @ [Wait (pid c), Print ''Bazarr is restarting...'']
                          \<and> (\<forall>script p. Popen script p \<notin> set evs))
               \<and> ((\<forall>p. procs w p = Some Running \<longrightarrow> p = pid c)
                     \<longrightarrow> (\<forall>p. procs w2 p \<noteq> Some Running))))
       \<and> (\<forall>child'. fst (check_status L c restart_file stop_file w) = Returns child' \<longrightarrow>
            (\<exists>evs. new_events w (snd (check_status L c restart_file stop_file w))
                      = evs @ [Wait (pid c), Print ''Bazarr is restarting...'',
                               Popen (args child') (pid child'),
                               Print (''Bazarr starting child process with PID ''
                                      @ str_nat (pid child') @ ''...'')]
                    \<and> (\<forall>script p. Popen script p \<notin> set evs))
            \<and> ((\<forall>p. procs w p = Some Running \<longrightarrow> p = pid c)
                  \<longrightarrow> (\<forall>p. procs (snd (check_status L c restart_file stop_file w)) p = Some Running
                            \<longrightarrow> p = pid child')))"
proof -
  from assms have sf: "files w stop_file = None" and rf: "files w restart_file = Some f"
    by (auto simp: os_path_exists_def)
  note eff = restart_tick_effects [OF sf rf, of L c]
  note out = eff [THEN conjunct1]
  note tr = eff [THEN conjunct2, THEN conjunct1]
  note pr = eff [THEN conjunct2, THEN conjunct2, THEN conjunct1]
  define pre where "pre = [Print ''Deleting restart file...'', Unlink restart_file]
           @ (if removable f then [] else [Print ''Unable to delete restart file.''])
           @ [Print (''Terminating child process with PID '' @ str_nat (pid c))]
           @ (if procs w (pid c) = Some Running then [Terminate (pid c)] else [])"
  have pre: "\<forall>script p. Popen script p \<notin> set pre"
    by (simp add: pre_def)
  define w1 where "w1 = w\<lparr>trace := trace w @ [Print ''Deleting restart file...'', Unlink restart_file]
                               @ (if removable f then [] else [Print ''Unable to delete restart file.'']),
                      files := (if removable f then (files w)(restart_file := None) else files w)\<rparr>"
  have tick: "check_status L c restart_file stop_file w =
                bind (terminate_child c w1)
                  (\<lambda>_ w2. start_bazarr (Some c) (print ''Bazarr is restarting...'' w2))"
    unfolding w1_def by (rule restart_tick [OF sf rf])
  have w1: "procs w1 = procs w" "sigterm_exit w1 = sigterm_exit w"
    by (simp_all add: w1_def)
  have 1: "\<not> child_exits c w \<longrightarrow>
            fst (check_status L c restart_file stop_file w) = Blocks
            \<and> (\<forall>script p. Popen script p
                  \<notin> set (new_events w (snd (check_status L c restart_file stop_file w))))"
    using out tr by (simp add: new_events_def)
  have 2: "\<exists>w2. check_status L c restart_file stop_file w = start_bazarr (Some c) w2
               \<and> procs w2 (pid c) \<noteq> Some Running
               \<and> (\<exists>evs. new_events w w2 = evs @ [Wait (pid c), Print ''Bazarr is restarting...'']
                          \<and> (\<forall>script p. Popen script p \<notin> set evs))
               \<and> ((\<forall>p. procs w p = Some Running \<longrightarrow> p = pid c)
                     \<longrightarrow> (\<forall>p. procs w2 p \<noteq> Some Running))"
    if ex: "child_exits c w"
  proof -
    let ?w2 = "print ''Bazarr is restarting...'' (snd (terminate_child c w1))"
    have ret: "fst (terminate_child c w1) = Returns ()"
      using ex w1
      by (cases rule: worker_cases [of w c])
         (simp_all add: terminate_child_gone terminate_child_running child_exits_cases)
    then have a: "check_status L c restart_file stop_file w = start_bazarr (Some c) ?w2"
      unfolding tick by (cases "terminate_child c w1") (simp add: bind_def)
    have b: "procs ?w2 (pid c) \<noteq> Some Running"
      using ex w1
      by (cases rule: worker_cases [of w c])
         (simp_all add: terminate_child_gone terminate_child_running child_exits_cases print_def)
    have c: "new_events w ?w2 = pre @ [Wait (pid c), Print ''Bazarr is restarting...'']"
      using ex w1
      by (cases rule: worker_cases [of w c])
         (simp_all add: terminate_child_gone terminate_child_running child_exits_cases print_def
            new_events_def pre_def w1_def)
    have d: "(\<forall>p. procs w p = Some Running \<longrightarrow> p = pid c)
                     \<longrightarrow> (\<forall>p. procs ?w2 p \<noteq> Some Running)"
    proof (cases rule: worker_cases [of w c])
      case gone
      then have "procs ?w2 = procs w"
        using w1 by (simp add: terminate_child_gone print_def)
      with gone show ?thesis by metis
    next
      case (leaves x)
      then have "procs ?w2 = (procs w)(pid c \<mapsto> Exited x)"
        using w1 by (simp add: terminate_child_running print_def)
      then show ?thesis by auto
    next
      case stays
      with ex show ?thesis by (simp add: child_exits_cases)
    qed
    from a b c d pre show ?thesis by blast
  qed
  have 3: "(\<exists>evs. new_events w (snd (check_status L c restart_file stop_file w))
                      = evs @ [Wait (pid c), Print ''Bazarr is restarting...'',
                               Popen (args child') (pid child'),
                               Print (''Bazarr starting child process with PID ''
                                      @ str_nat (pid child') @ ''...'')]
                    \<and> (\<forall>script p. Popen script p \<notin> set evs))
            \<and> ((\<forall>p. procs w p = Some Running \<longrightarrow> p = pid c)
                  \<longrightarrow> (\<forall>p. procs (snd (check_status L c restart_file stop_file w)) p = Some Running
                            \<longrightarrow> p = pid child'))"
    if r: "fst (check_status L c restart_file stop_file w) = Returns child'" for child'
  proof -
    have ex: "child_exits c w"
      using r out by (cases "child_exits c w") simp_all
    have ok: "popen_ok w"
      using r out ex by (cases "popen_ok w") simp_all
    have ch: "child' = \<lparr>pid = next_pid w,
                          args = [python_path w, ''-u'', main_script w] @ drop 1 (argv w)\<rparr>"
      using r out ex ok by simp
    have "new_events w (snd (check_status L c restart_file stop_file w))
            = pre @ [Wait (pid c), Print ''Bazarr is restarting...'',
                     Popen (args child') (pid child'),
                     Print (''Bazarr starting child process with PID ''
                            @ str_nat (pid child') @ ''...'')]"
      using tr ex ok ch by (simp add: new_events_def pre_def)
    moreover have "(\<forall>p. procs w p = Some Running \<longrightarrow> p = pid c)
                  \<longrightarrow> (\<forall>p. procs (snd (check_status L c restart_file stop_file w)) p = Some Running
                            \<longrightarrow> p = pid child')"
    proof (cases rule: worker_cases [of w c])
      case gone
      then have "procs (snd (check_status L c restart_file stop_file w))
                 = (procs w)(next_pid w \<mapsto> Running)"
        using pr ok by simp
      with gone ch show ?thesis by (metis fun_upd_apply popen.select_convs(1))
    next
      case (leaves x)
      then have "procs (snd (check_status L c restart_file stop_file w))
                 = (procs w)(pid c \<mapsto> Exited x, next_pid w \<mapsto> Running)"
        using pr ok by simp
      with ch show ?thesis by (auto split: if_splits)
    next
      case stays
      with ex show ?thesis by (simp add: child_exits_cases)
    qed
    ultimately show ?thesis using pre by blast
  qed
  have A: "new_events w (snd (check_status L c restart_file stop_file w))
           = [Print ''Deleting restart file...'', Unlink restart_file]
             @ (if removable f then [] else [Print ''Unable to delete restart file.''])
             @ [Print (''Terminating child process with PID '' @ str_nat (pid c))]
             @ (if procs w (pid c) = Some Running then [Terminate (pid c)] else [])
             @ [Wait (pid c)]
             @ (if child_exits c w then [Print ''Bazarr is restarting...''] else [])
             @ (if child_exits c w \<and> popen_ok w
                then [Popen ([python_path w, ''-u'', main_script w] @ drop 1 (argv w))
                        (next_pid w),
                      Print (''Bazarr starting child process with PID ''
                             @ str_nat (next_pid w) @ ''...'')]
                else [])"
    unfolding new_events_def tr by simp
  have C: "procs (snd (check_status L c restart_file stop_file w)) (pid child') = Some Running"
    if r: "fst (check_status L c restart_file stop_file w) = Returns child'" for child'
  proof -
    have ex: "child_exits c w"
      using r out by (cases "child_exits c w") simp_all
    have ok: "popen_ok w"
      using r out ex by (cases "popen_ok w") simp_all
    have ch: "child' = \<lparr>pid = next_pid w,
                          args = [python_path w, ''-u'', main_script w] @ drop 1 (argv w)\<rparr>"
      using r out ex ok by simp
    show ?thesis
      unfolding pr using ex ok ch
      by (cases rule: worker_cases [of w c]) (simp_all add: child_exits_cases)
  qed
  show ?thesis
    by (intro conjI allI impI) (rule A out | erule C | use 1 2 3 in blast)+
qed

theorem restart_waits_for_old_worker_witness:
  "\<not> os_path_exists ''/tmp/x/stop'' restart_world
   \<and> files restart_world ''/tmp/x/restart'' = Some \<lparr>content = Some [], removable = False\<rparr>
   \<and> child_exits example_worker restart_world
   \<and> procs restart_world = [41 \<mapsto> Running]
   \<and> new_events restart_world
        (snd (check_status example_literals example_worker ''/tmp/x/restart'' ''/tmp/x/stop''
                restart_world))
       = [Print ''Deleting restart file...'', Unlink ''/tmp/x/restart'',
          Print ''Unable to delete restart file.'',
          Print ''Terminating child process with PID 41'', Terminate 41, Wait 41,
          Print ''Bazarr is restarting...'',
          Popen [''/usr/bin/python3'', ''-u'', ''/opt/bazarr/bazarr/main.py'',
                 ''-c'', ''/tmp/x'', ''--debug''] 42,
          Print ''Bazarr starting child process with PID 42...'']
   \<and> fst (check_status example_literals example_worker ''/tmp/x/restart'' ''/tmp/x/stop''
            restart_world)
       = Returns \<lparr>pid = 42, args = [''/usr/bin/python3'', ''-u'', ''/opt/bazarr/bazarr/main.py'',
                                       ''-c'', ''/tmp/x'', ''--debug'']\<rparr>
   \<and> procs (snd (check_status example_literals example_worker ''/tmp/x/restart''
                    ''/tmp/x/stop'' restart_world)) 42 = Some Running
   \<and> procs (snd (check_status example_literals example_worker ''/tmp/x/restart''
                    ''/tmp/x/stop'' restart_world)) 41 \<noteq> Some Running"
proof -
  have s: "\<not> os_path_exists ''/tmp/x/stop'' restart_world"
    by (simp add: os_path_exists_def restart_world_def)
  have rf: "files restart_world ''/tmp/x/restart'' = Some \<lparr>content = Some [], removable = False\<rparr>"
    by (simp add: restart_world_def)
  have tab: "procs restart_world = [41 \<mapsto> Running]"
    by (simp add: restart_world_def example_world_def)
  have one: "\<forall>p. procs restart_world p = Some Running \<longrightarrow> p = pid example_worker"
    by (simp add: tab example_worker_def)
  have w: "procs restart_world (pid example_worker) = Some Running"
    "popen_ok restart_world" "next_pid restart_world = 42"
    "python_path restart_world = ''/usr/bin/python3''"
    "main_script restart_world = ''/opt/bazarr/bazarr/main.py''"
    "argv restart_world = [''bazarr.py'', ''-c'', ''/tmp/x'', ''--debug'']"
    by (simp_all add: restart_world_def example_world_def example_worker_def)
  note inst = restart_waits_for_old_worker [OF s rf, of example_literals example_worker]
  note ev = inst [THEN conjunct1]
  note out = inst [THEN conjunct2, THEN conjunct1]
  note run = inst [THEN conjunct2, THEN conjunct2, THEN conjunct1]
  note only = inst [THEN conjunct2, THEN conjunct2, THEN conjunct2, THEN conjunct2,
                    THEN conjunct2]
  have o: "fst (check_status example_literals example_worker ''/tmp/x/restart'' ''/tmp/x/stop''
            restart_world)
       = Returns \<lparr>pid = 42, args = [''/usr/bin/python3'', ''-u'', ''/opt/bazarr/bazarr/main.py'',
                                       ''-c'', ''/tmp/x'', ''--debug'']\<rparr>"
    using out example_child_exits(3) w by simp
  have e: "new_events restart_world
        (snd (check_status example_literals example_worker ''/tmp/x/restart'' ''/tmp/x/stop''
                restart_world))
       = [Print ''Deleting restart file...'', Unlink ''/tmp/x/restart'',
          Print ''Unable to delete restart file.'',
          Print ''Terminating child process with PID 41'', Terminate 41, Wait 41,
          Print ''Bazarr is restarting...'',
          Popen [''/usr/bin/python3'', ''-u'', ''/opt/bazarr/bazarr/main.py'',
                 ''-c'', ''/tmp/x'', ''--debug''] 42,
          Print ''Bazarr starting child process with PID 42...'']"
    using ev example_child_exits(3) w example_worker_facts by simp
  have a: "procs (snd (check_status example_literals example_worker ''/tmp/x/restart''
                    ''/tmp/x/stop'' restart_world)) 42 = Some Running"
    using run o by simp
  from only o one have
    "\<forall>p. procs (snd (check_status example_literals example_worker ''/tmp/x/restart''
                           ''/tmp/x/stop'' restart_world)) p = Some Running \<longrightarrow> p = 42"
    by simp
  then have b: "procs (snd (check_status example_literals example_worker ''/tmp/x/restart''
                    ''/tmp/x/stop'' restart_world)) 41 \<noteq> Some Running"
    by fastforce
  from s rf example_child_exits(3) tab e o a b show ?thesis by blast
qed

section \<open>Terminating the worker\<close>

text \<open>
  C9. \<open>terminate_child\<close> sends the termination signal exactly when the worker is still
  running, and its last effect is always the wait. It comes back unless the worker is running
  and never exits, and when it comes back the worker is not running. On a worker that is not
  running it sends no signal and changes nothing but the trace, which gains the status line
  and the wait. So a second call after a first one that came back sends no signal and leaves
  the process table as the first call left it.
\<close>

theorem terminate_child_idempotent:
  "(Terminate (pid c) \<in> set (new_events w (snd (terminate_child c w)))
      \<longleftrightarrow> procs w (pid c) = Some Running)
   \<and> (\<exists>evs. new_events w (snd (terminate_child c w)) = evs @ [Wait (pid c)])
   \<and> (fst (terminate_child c w) = Returns () \<or> fst (terminate_child c w) = Blocks)
   \<and> (fst (terminate_child c w) = Blocks
        \<longleftrightarrow> procs w (pid c) = Some Running \<and> sigterm_exit w (pid c) = None)
   \<and> (fst (terminate_child c w) = Returns ()
        \<longrightarrow> procs (snd (terminate_child c w)) (pid c) \<noteq> Some Running)
   \<and> (procs w (pid c) \<noteq> Some Running \<longrightarrow>
        terminate_child c w =
          (Returns (),
           w\<lparr>trace := trace w @ [Print (''Terminating child process with PID '' @ str_nat (pid c)),
                                 Wait (pid c)]\<rparr>))
   \<and> (fst (terminate_child c w) = Returns () \<longrightarrow>
        terminate_child c (snd (terminate_child c w)) =
          (Returns (),
           (snd (terminate_child c w))
             \<lparr>trace := trace (snd (terminate_child c w))
                        @ [Print (''Terminating child process with PID '' @ str_nat (pid c)),
                           Wait (pid c)]\<rparr>))"
proof (cases "procs w (pid c) = Some Running")
  case True
  then show ?thesis
    by (cases "sigterm_exit w (pid c)")
       (simp_all add: terminate_child_running terminate_child_gone new_events_def)
next
  case False
  then show ?thesis
    by (simp add: terminate_child_gone new_events_def)
qed

theorem terminate_child_idempotent_witness:
  "fst (terminate_child example_worker example_world) = Returns ()
   \<and> procs (snd (terminate_child example_worker example_world)) 41 = Some (Exited (- 15))
   \<and> new_events example_world (snd (terminate_child example_worker example_world))
       = [Print ''Terminating child process with PID 41'', Terminate 41, Wait 41]
   \<and> new_events (snd (terminate_child example_worker example_world))
        (snd (terminate_child example_worker (snd (terminate_child example_worker example_world))))
       = [Print ''Terminating child process with PID 41'', Wait 41]
   \<and> procs (snd (terminate_child example_worker (snd (terminate_child example_worker example_world))))
       = procs (snd (terminate_child example_worker example_world))"
proof -
  have r: "procs example_world (pid example_worker) = Some Running"
    by (simp add: example_world_def example_worker_def)
  have s: "sigterm_exit example_world (pid example_worker) = Some (- 15)"
    by (simp add: example_world_def)
  have n: "str_nat (pid example_worker) = ''41''"
    by (simp add: example_worker_def str_nat.simps digit_char_def)
  have 1: "terminate_child example_worker example_world =
      (Returns (),
       example_world\<lparr>procs := (procs example_world)(pid example_worker \<mapsto> Exited (- 15)),
         trace := trace example_world @ [Print ''Terminating child process with PID 41'',
                                         Terminate 41, Wait 41]\<rparr>)"
    using terminate_child_running [OF r] s n by (simp add: example_worker_def)
  have 2: "fst (terminate_child example_worker example_world) = Returns ()"
    using 1 by simp
  have 3: "procs (snd (terminate_child example_worker example_world)) (pid example_worker)
           \<noteq> Some Running"
    using terminate_child_idempotent [of example_worker example_world] 2 by blast
  have 4: "terminate_child example_worker (snd (terminate_child example_worker example_world)) =
          (Returns (),
           (snd (terminate_child example_worker example_world))
             \<lparr>trace := trace (snd (terminate_child example_worker example_world))
                        @ [Print (''Terminating child process with PID '' @ str_nat (pid example_worker)),
                           Wait (pid example_worker)]\<rparr>)"
    using terminate_child_idempotent
            [of example_worker "snd (terminate_child example_worker example_world)"] 3
    by blast
  show ?thesis
    unfolding 4 unfolding 1 using n
    by (simp add: new_events_def example_worker_def)
qed

section \<open>A tick without a request\<close>

text \<open>
  C10. When neither the stop file nor the restart file exists, \<open>check_status\<close> returns the
  handle it was given and leaves the whole world as it was: no signal, no wait, no spawn, no
  file touched, nothing printed.
\<close>

theorem check_status_idle:
  assumes "\<not> os_path_exists stop_file w" and "\<not> os_path_exists restart_file w"
  shows "check_status L child_process restart_file stop_file w = (Returns child_process, w)"
  using assms by (simp add: check_status_def)

theorem check_status_idle_witness:
  "\<not> os_path_exists ''/tmp/x/stop'' (example_world\<lparr>files := Map.empty\<rparr>)
   \<and> \<not> os_path_exists ''/tmp/x/restart'' (example_world\<lparr>files := Map.empty\<rparr>)
   \<and> check_status example_literals example_worker ''/tmp/x/restart'' ''/tmp/x/stop''
         (example_world\<lparr>files := Map.empty\<rparr>)
       = (Returns example_worker, example_world\<lparr>files := Map.empty\<rparr>)"
  using check_status_idle [of "''/tmp/x/stop''" "example_world\<lparr>files := Map.empty\<rparr>"
      "''/tmp/x/restart''" example_literals example_worker]
  by (simp add: os_path_exists_def)

section \<open>The startup sequence\<close>

lemma check_python_version_frame:
  "files (snd (check_python_version L w)) = files w"
  "procs (snd (check_python_version L w)) = procs w"
  "next_pid (snd (check_python_version L w)) = next_pid w"
  "popen_ok (snd (check_python_version L w)) = popen_ok w"
  "argv (snd (check_python_version L w)) = argv w"
  "environ (snd (check_python_version L w)) = environ w"
  "python_path (snd (check_python_version L w)) = python_path w"
  "main_script (snd (check_python_version L w)) = main_script w"
  by (simp_all add: check_python_version_def exit_program_def print_def split: prod.splits)

lemma remove_leftover_absent:
  "files w p = None \<Longrightarrow> absent_error w p = FileNotFoundError \<Longrightarrow>
   remove_leftover p w = (Returns (), emit (Unlink p) w)"
  by (simp add: remove_leftover_def os_remove_def)

lemma remove_leftover_absent_other:
  "files w p = None \<Longrightarrow> absent_error w p \<noteq> FileNotFoundError \<Longrightarrow>
   remove_leftover p w = (Raises (absent_error w p), emit (Unlink p) w)"
  by (cases "absent_error w p") (simp_all add: remove_leftover_def os_remove_def)

lemma remove_leftover_removable:
  "files w p = Some f \<Longrightarrow> removable f \<Longrightarrow>
   remove_leftover p w = (Returns (), (emit (Unlink p) w)\<lparr>files := (files w)(p := None)\<rparr>)"
  by (simp add: remove_leftover_def os_remove_def)

lemma remove_leftover_stuck:
  "files w p = Some f \<Longrightarrow> \<not> removable f \<Longrightarrow>
   remove_leftover p w = (Raises PermissionError, emit (Unlink p) w)"
  by (simp add: remove_leftover_def os_remove_def)

lemma remove_leftover_returns:
  assumes "remove_leftover p w = (Returns u, w1)"
  shows "files w1 = (files w)(p := None)" "trace w1 = trace w @ [Unlink p]"
    "procs w1 = procs w" "next_pid w1 = next_pid w" "popen_ok w1 = popen_ok w"
    "argv w1 = argv w" "environ w1 = environ w" "python_path w1 = python_path w"
    "main_script w1 = main_script w"
proof -
  consider (absent) "files w p = None"
    | (removable) f where "files w p = Some f" "removable f"
    | (stuck) f where "files w p = Some f" "\<not> removable f"
    by (cases "files w p") auto
  then have "files w1 = (files w)(p := None) \<and> trace w1 = trace w @ [Unlink p]
    \<and> procs w1 = procs w \<and> next_pid w1 = next_pid w \<and> popen_ok w1 = popen_ok w
    \<and> argv w1 = argv w \<and> environ w1 = environ w \<and> python_path w1 = python_path w
    \<and> main_script w1 = main_script w"
  proof cases
    case absent
    with assms show ?thesis
      by (cases "absent_error w p = FileNotFoundError")
         (auto simp: remove_leftover_absent remove_leftover_absent_other)
  next
    case removable
    with assms show ?thesis by (auto simp: remove_leftover_removable)
  next
    case stuck
    with assms show ?thesis by (simp add: remove_leftover_stuck)
  qed
  then show "files w1 = (files w)(p := None)" "trace w1 = trace w @ [Unlink p]"
    "procs w1 = procs w" "next_pid w1 = next_pid w" "popen_ok w1 = popen_ok w"
    "argv w1 = argv w" "environ w1 = environ w" "python_path w1 = python_path w"
    "main_script w1 = main_script w"
    by blast+
qed

lemma bind_returns:
  "bind m f = (Returns y, w') \<Longrightarrow> \<exists>x w1. m = (Returns x, w1) \<and> f x w1 = (Returns y, w')"
  by (cases m; cases "fst m") (auto simp: bind_def)

lemma start_bazarr_returns:
  assumes "start_bazarr cp w = (Returns ep, w')"
  shows "ep = \<lparr>pid = next_pid w, args = [python_path w, ''-u'', main_script w] @ drop 1 (argv w)\<rparr>"
    and "trace w' = trace w @ [Popen (args ep) (pid ep),
            Print (''Bazarr starting child process with PID '' @ str_nat (pid ep) @ ''...'')]"
    and "files w' = files w" and "environ w' = environ w"
    and "procs w' = (procs w)(pid ep \<mapsto> Running)"
  using assms
  by (auto simp: start_bazarr_def Let_def print_def split: if_splits)

lemma startup_returns:
  assumes "startup L w = (Returns (child, rf, sf), w')"
  shows "rf = os_path_join w (args_config_dir w) (FILE_RESTART L)
       \<and> sf = os_path_join w (args_config_dir w) (FILE_STOP L)
       \<and> trace w' = trace (snd (check_python_version L w))
           @ [Signal_SIGINT, Putenv (ENV_STOPFILE L) sf, Putenv (ENV_RESTARTFILE L) rf,
              Unlink rf, Unlink sf, Popen (args child) (pid child),
              Print (''Bazarr starting child process with PID '' @ str_nat (pid child) @ ''...'')]
       \<and> environ w' = (environ w)(ENV_STOPFILE L \<mapsto> sf, ENV_RESTARTFILE L \<mapsto> rf)
       \<and> files w' rf = None \<and> files w' sf = None
       \<and> args child = [python_path w, ''-u'', main_script w] @ drop 1 (argv w)"
proof -
  define rf0 where "rf0 = os_path_join w (args_config_dir w) (FILE_RESTART L)"
  define sf0 where "sf0 = os_path_join w (args_config_dir w) (FILE_STOP L)"
  from bind_returns [OF assms [unfolded startup_def]] obtain u w1 where v: "check_python_version L w = (Returns u, w1)"
    and rest: "bind (remove_leftover rf0
                 (putenv (ENV_RESTARTFILE L) rf0 (putenv (ENV_STOPFILE L) sf0 (emit Signal_SIGINT w1))))
               (\<lambda>_ w5. bind (remove_leftover sf0 w5) (\<lambda>_ w6.
                  bind (start_bazarr None w6) (\<lambda>child_process w7.
                    (Returns (child_process, rf0, sf0), w7))))
             = (Returns (child, rf, sf), w')"
    unfolding rf0_def sf0_def
    by (auto simp: Let_def)
  define w4 where "w4 = putenv (ENV_RESTARTFILE L) rf0 (putenv (ENV_STOPFILE L) sf0 (emit Signal_SIGINT w1))"
  from bind_returns [OF rest] obtain u5 w5 where r5: "remove_leftover rf0 w4 = (Returns u5, w5)"
    and rest5: "bind (remove_leftover sf0 w5) (\<lambda>_ w6.
                  bind (start_bazarr None w6) (\<lambda>child_process w7.
                    (Returns (child_process, rf0, sf0), w7)))
             = (Returns (child, rf, sf), w')"
    unfolding w4_def by auto
  from bind_returns [OF rest5] obtain u6 w6 where r6: "remove_leftover sf0 w5 = (Returns u6, w6)"
    and rest6: "bind (start_bazarr None w6) (\<lambda>child_process w7.
                    (Returns (child_process, rf0, sf0), w7))
             = (Returns (child, rf, sf), w')"
    by auto
  from bind_returns [OF rest6] have r7: "start_bazarr None w6 = (Returns child, w')" and rf: "rf = rf0" and sf: "sf = sf0"
    by auto
  have w1: "w1 = snd (check_python_version L w)"
    using v by simp
  have t4: "trace w4 = trace w1 @ [Signal_SIGINT, Putenv (ENV_STOPFILE L) sf0,
                                   Putenv (ENV_RESTARTFILE L) rf0]"
    and e4: "environ w4 = (environ w1)(ENV_STOPFILE L \<mapsto> sf0, ENV_RESTARTFILE L \<mapsto> rf0)"
    and f4: "argv w4 = argv w1" "python_path w4 = python_path w1" "main_script w4 = main_script w1"
    by (simp_all add: w4_def putenv_def)
  note l5 = remove_leftover_returns [OF r5]
  note l6 = remove_leftover_returns [OF r6]
  note l7 = start_bazarr_returns [OF r7]
  have tr: "trace w' = trace (snd (check_python_version L w))
           @ [Signal_SIGINT, Putenv (ENV_STOPFILE L) sf, Putenv (ENV_RESTARTFILE L) rf,
              Unlink rf, Unlink sf, Popen (args child) (pid child),
              Print (''Bazarr starting child process with PID '' @ str_nat (pid child) @ ''...'')]"
    using l7(2) l6(2) l5(2) t4 w1 rf sf by simp
  have en: "environ w' = (environ w)(ENV_STOPFILE L \<mapsto> sf, ENV_RESTARTFILE L \<mapsto> rf)"
    using l7(4) l6(7) l5(7) e4 w1 rf sf check_python_version_frame(6) [of L w] by simp
  have fi: "files w' rf = None \<and> files w' sf = None"
    using l7(3) l6(1) l5(1) rf sf by simp
  have ar: "args child = [python_path w, ''-u'', main_script w] @ drop 1 (argv w)"
    using l7(1) l6(6,8,9) l5(6,8,9) f4 w1 check_python_version_frame(5,7,8) [of L w] by simp
  have "rf = os_path_join w (args_config_dir w) (FILE_RESTART L)"
    and "sf = os_path_join w (args_config_dir w) (FILE_STOP L)"
    using rf sf by (simp_all add: rf0_def sf0_def)
  with tr en fi ar show ?thesis by simp
qed

lemma startup_idle:
  "startup example_literals idle_world
   = (Returns (\<lparr>pid = 42, args = [''/usr/bin/python3'', ''-u'', ''/opt/bazarr/bazarr/main.py'',
                                     ''-c'', ''/tmp/x'', ''--debug'']\<rparr>,
               ''/tmp/x/restart'', ''/tmp/x/stop''),
      snd (startup example_literals idle_world))"
  by (simp add: startup_def bind_def check_python_version_def idle_world_def example_world_def
        example_literals_def os_path_join_def
        startswith_def putenv_def remove_leftover_def os_remove_def start_bazarr_def print_def
        Let_def)

section \<open>The arguments of the worker\<close>

text \<open>
  C8, as the code has it. Every worker is spawned by \<open>start_bazarr\<close>, at startup and
  on a restart, and its command line is the interpreter, \<^verbatim>\<open>-u\<close>, the main script, and
  then every argument of the supervisor after the program name, unchanged and in order: the
  option \<^verbatim>\<open>-c\<close>/\<^verbatim>\<open>--config\<close> that the supervisor reads itself is passed on as well.
\<close>

theorem worker_gets_all_arguments:
  "(start_bazarr cp w = (Returns ep, w') \<longrightarrow>
      args ep = [python_path w, ''-u'', main_script w] @ drop 1 (argv w)
      \<and> new_events w w'
          = [Popen (args ep) (pid ep),
             Print (''Bazarr starting child process with PID '' @ str_nat (pid ep) @ ''...'')])
   \<and> (startup L w = (Returns (child, rf0, sf0), w'') \<longrightarrow>
        args child = [python_path w, ''-u'', main_script w] @ drop 1 (argv w))
   \<and> (\<not> os_path_exists sf w \<and> os_path_exists rf w
        \<and> fst (check_status L c rf sf w) = Returns child' \<longrightarrow>
        args child' = [python_path w, ''-u'', main_script w] @ drop 1 (argv w))"
proof -
  have 1: "args ep = [python_path w, ''-u'', main_script w] @ drop 1 (argv w)
      \<and> new_events w w'
          = [Popen (args ep) (pid ep),
             Print (''Bazarr starting child process with PID '' @ str_nat (pid ep) @ ''...'')]"
    if "start_bazarr cp w = (Returns ep, w')"
    using start_bazarr_returns(1,2) [OF that] by (simp add: new_events_def)
  have 2: "args child = [python_path w, ''-u'', main_script w] @ drop 1 (argv w)"
    if "startup L w = (Returns (child, rf0, sf0), w'')"
    using startup_returns [OF that] by simp
  have 3: "args child' = [python_path w, ''-u'', main_script w] @ drop 1 (argv w)"
    if a: "\<not> os_path_exists sf w" and b: "os_path_exists rf w"
      and r: "fst (check_status L c rf sf w) = Returns child'"
  proof -
    from a b obtain f where sf: "files w sf = None" and rf: "files w rf = Some f"
      by (auto simp: os_path_exists_def)
    note out = restart_tick_effects [OF sf rf, of L c, THEN conjunct1]
    have ex: "child_exits c w"
      using r out by (cases "child_exits c w") simp_all
    have ok: "popen_ok w"
      using r out ex by (cases "popen_ok w") simp_all
    from r out ex ok
    have "child' = \<lparr>pid = next_pid w,
                      args = [python_path w, ''-u'', main_script w] @ drop 1 (argv w)\<rparr>"
      by simp
    then show ?thesis by simp
  qed
  from 1 2 3 show ?thesis by blast
qed

theorem worker_gets_all_arguments_witness:
  "start_bazarr None example_world
     = (Returns \<lparr>pid = 42, args = [''/usr/bin/python3'', ''-u'', ''/opt/bazarr/bazarr/main.py'',
                                      ''-c'', ''/tmp/x'', ''--debug'']\<rparr>,
        snd (start_bazarr None example_world))
   \<and> new_events example_world (snd (start_bazarr None example_world))
       = [Popen [''/usr/bin/python3'', ''-u'', ''/opt/bazarr/bazarr/main.py'',
                 ''-c'', ''/tmp/x'', ''--debug''] 42,
          Print ''Bazarr starting child process with PID 42...'']
   \<and> startup example_literals idle_world
       = (Returns (\<lparr>pid = 42, args = [''/usr/bin/python3'', ''-u'', ''/opt/bazarr/bazarr/main.py'',
                                         ''-c'', ''/tmp/x'', ''--debug'']\<rparr>,
                   ''/tmp/x/restart'', ''/tmp/x/stop''),
          snd (startup example_literals idle_world))
   \<and> \<not> os_path_exists ''/tmp/x/stop'' restart_world
   \<and> os_path_exists ''/tmp/x/restart'' restart_world
   \<and> fst (check_status example_literals example_worker ''/tmp/x/restart'' ''/tmp/x/stop''
            restart_world)
       = Returns \<lparr>pid = 42, args = [''/usr/bin/python3'', ''-u'', ''/opt/bazarr/bazarr/main.py'',
                                       ''-c'', ''/tmp/x'', ''--debug'']\<rparr>"
proof -
  have a: "start_bazarr None example_world
     = (Returns \<lparr>pid = 42, args = [''/usr/bin/python3'', ''-u'', ''/opt/bazarr/bazarr/main.py'',
                                      ''-c'', ''/tmp/x'', ''--debug'']\<rparr>,
        snd (start_bazarr None example_world))"
    by (simp add: start_bazarr_def Let_def example_world_def)
  have n: "str_nat 42 = ''42''"
    by (simp add: str_nat.simps digit_char_def)
  have b: "new_events example_world (snd (start_bazarr None example_world))
       = [Popen [''/usr/bin/python3'', ''-u'', ''/opt/bazarr/bazarr/main.py'',
                 ''-c'', ''/tmp/x'', ''--debug''] 42,
          Print ''Bazarr starting child process with PID 42...'']"
    using worker_gets_all_arguments
            [of None example_world _ "snd (start_bazarr None example_world)"] a n
    by simp
  have s: "\<not> os_path_exists ''/tmp/x/stop'' restart_world"
    by (simp add: os_path_exists_def restart_world_def)
  have r: "os_path_exists ''/tmp/x/restart'' restart_world"
    by (simp add: os_path_exists_def restart_world_def)
  have sf: "files restart_world ''/tmp/x/stop'' = None"
    by (simp add: restart_world_def)
  have rf: "files restart_world ''/tmp/x/restart'' = Some \<lparr>content = Some [], removable = False\<rparr>"
    by (simp add: restart_world_def)
  have out: "fst (check_status example_literals example_worker ''/tmp/x/restart'' ''/tmp/x/stop''
            restart_world)
       = Returns \<lparr>pid = 42, args = [''/usr/bin/python3'', ''-u'', ''/opt/bazarr/bazarr/main.py'',
                                       ''-c'', ''/tmp/x'', ''--debug'']\<rparr>"
    using restart_tick_effects [OF sf rf, of example_literals example_worker, THEN conjunct1]
      example_child_exits(3)
    by (simp add: restart_world_def example_world_def)
  from a b s r out startup_idle show ?thesis by simp
qed

text \<open>
  The claim as the specification words it leaves out the arguments the supervisor consumes.
  The supervisor of the example reads its configuration directory from \<^verbatim>\<open>-c /tmp/x\<close>,
  and the worker still receives \<^verbatim>\<open>-c /tmp/x\<close>.
\<close>

theorem consumed_config_option_is_passed_on:
  "args_config_dir example_world = ''/tmp/x''
   \<and> fst (start_bazarr None example_world)
       = Returns \<lparr>pid = 42, args = [''/usr/bin/python3'', ''-u'', ''/opt/bazarr/bazarr/main.py'',
                                       ''-c'', ''/tmp/x'', ''--debug'']\<rparr>
   \<and> spec_passthrough_args (drop 1 (argv example_world)) = [''--debug'']
   \<and> fst (start_bazarr None example_world)
       \<noteq> Returns \<lparr>pid = 42, args = [python_path example_world, ''-u'', main_script example_world]
                                      @ spec_passthrough_args (drop 1 (argv example_world))\<rparr>"
  by (simp add: start_bazarr_def Let_def example_world_def)

section \<open>Failing to delete a sentinel file\<close>

text \<open>
  C5, as the code has it. On a tick that finds a sentinel file, the deletion is attempted
  first; when it fails, one line is printed and the tick goes on as it does when the deletion
  succeeds: the worker is told to terminate and waited for, and then the supervisor exits
  with the stop code, or spawns the replacement. The outcome of the tick and what it does to
  the worker do not depend on whether the file could be deleted. At startup, a stale file
  whose deletion raises \<^verbatim>\<open>FileNotFoundError\<close> is passed over without a word.
\<close>

theorem tick_delete_failure_is_logged_not_fatal:
  assumes "files w p = Some f"
  shows "new_events w (snd (check_status L c rf p w))
           = [Print ''Deleting stop file...'', Unlink p]
             @ (if removable f then [] else [Print ''Unable to delete stop file.''])
             @ [Print (''Terminating child process with PID '' @ str_nat (pid c))]
             @ (if procs w (pid c) = Some Running then [Terminate (pid c)] else [])
             @ [Wait (pid c)]
             @ (if child_exits c w
                then [Print (''Bazarr exited with status code ''
                             @ str_int (get_stop_status_code L p w) @ ''.'')]
                else [])
       \<and> fst (check_status L c rf p w)
           = (if child_exits c w then SystemExit (get_stop_status_code L p w) else Blocks)
       \<and> (child_exits c w \<longrightarrow> procs (snd (check_status L c rf p w)) (pid c) \<noteq> Some Running)
       \<and> (files w sf = None \<longrightarrow>
            new_events w (snd (check_status L c p sf w))
              = [Print ''Deleting restart file...'', Unlink p]
                @ (if removable f then [] else [Print ''Unable to delete restart file.''])
                @ [Print (''Terminating child process with PID '' @ str_nat (pid c))]
                @ (if procs w (pid c) = Some Running then [Terminate (pid c)] else [])
                @ [Wait (pid c)]
                @ (if child_exits c w then [Print ''Bazarr is restarting...''] else [])
                @ (if child_exits c w \<and> popen_ok w
                   then [Popen ([python_path w, ''-u'', main_script w] @ drop 1 (argv w))
                           (next_pid w),
                         Print (''Bazarr starting child process with PID ''
                                @ str_nat (next_pid w) @ ''...'')]
                   else [])
            \<and> fst (check_status L c p sf w)
                = (if \<not> child_exits c w then Blocks
                   else if popen_ok w
                   then Returns \<lparr>pid = next_pid w,
                                 args = [python_path w, ''-u'', main_script w] @ drop 1 (argv w)\<rparr>
                   else Raises OSError)
            \<and> (child_exits c w \<and> pid c \<noteq> next_pid w \<longrightarrow>
                  procs (snd (check_status L c p sf w)) (pid c) \<noteq> Some Running))
       \<and> (files w q = None \<and> absent_error w q = FileNotFoundError \<longrightarrow>
            remove_leftover q w = (Returns (), emit (Unlink q) w))"
proof -
  note st = stop_tick_effects [OF assms, of L c rf]
  have 1: "new_events w (snd (check_status L c rf p w))
           = [Print ''Deleting stop file...'', Unlink p]
             @ (if removable f then [] else [Print ''Unable to delete stop file.''])
             @ [Print (''Terminating child process with PID '' @ str_nat (pid c))]
             @ (if procs w (pid c) = Some Running then [Terminate (pid c)] else [])
             @ [Wait (pid c)]
             @ (if child_exits c w
                then [Print (''Bazarr exited with status code ''
                             @ str_int (get_stop_status_code L p w) @ ''.'')]
                else [])"
    unfolding new_events_def st [THEN conjunct1] by simp
  have 2: "fst (check_status L c rf p w)
           = (if child_exits c w then SystemExit (get_stop_status_code L p w) else Blocks)"
    by (rule stop_tick_outcome [OF assms])
  have 3: "child_exits c w \<longrightarrow> procs (snd (check_status L c rf p w)) (pid c) \<noteq> Some Running"
    unfolding st [THEN conjunct2, THEN conjunct1]
    by (cases rule: worker_cases [of w c]) (simp_all add: child_exits_cases)
  have 4: "new_events w (snd (check_status L c p sf w))
              = [Print ''Deleting restart file...'', Unlink p]
                @ (if removable f then [] else [Print ''Unable to delete restart file.''])
                @ [Print (''Terminating child process with PID '' @ str_nat (pid c))]
                @ (if procs w (pid c) = Some Running then [Terminate (pid c)] else [])
                @ [Wait (pid c)]
                @ (if child_exits c w then [Print ''Bazarr is restarting...''] else [])
                @ (if child_exits c w \<and> popen_ok w
                   then [Popen ([python_path w, ''-u'', main_script w] @ drop 1 (argv w))
                           (next_pid w),
                         Print (''Bazarr starting child process with PID ''
                                @ str_nat (next_pid w) @ ''...'')]
                   else [])
            \<and> fst (check_status L c p sf w)
                = (if \<not> child_exits c w then Blocks
                   else if popen_ok w
                   then Returns \<lparr>pid = next_pid w,
                                 args = [python_path w, ''-u'', main_script w] @ drop 1 (argv w)\<rparr>
                   else Raises OSError)
            \<and> (child_exits c w \<and> pid c \<noteq> next_pid w \<longrightarrow>
                  procs (snd (check_status L c p sf w)) (pid c) \<noteq> Some Running)"
    if sf: "files w sf = None"
  proof -
    note rt = restart_tick_effects [OF sf assms, of L c]
    have a: "new_events w (snd (check_status L c p sf w))
              = [Print ''Deleting restart file...'', Unlink p]
                @ (if removable f then [] else [Print ''Unable to delete restart file.''])
                @ [Print (''Terminating child process with PID '' @ str_nat (pid c))]
                @ (if procs w (pid c) = Some Running then [Terminate (pid c)] else [])
                @ [Wait (pid c)]
                @ (if child_exits c w then [Print ''Bazarr is restarting...''] else [])
                @ (if child_exits c w \<and> popen_ok w
                   then [Popen ([python_path w, ''-u'', main_script w] @ drop 1 (argv w))
                           (next_pid w),
                         Print (''Bazarr starting child process with PID ''
                                @ str_nat (next_pid w) @ ''...'')]
                   else [])"
      unfolding new_events_def rt [THEN conjunct2, THEN conjunct1] by simp
    have b: "child_exits c w \<and> pid c \<noteq> next_pid w \<longrightarrow>
                  procs (snd (check_status L c p sf w)) (pid c) \<noteq> Some Running"
      unfolding rt [THEN conjunct2, THEN conjunct2, THEN conjunct1]
      by (cases rule: worker_cases [of w c]) (simp_all add: child_exits_cases)
    show ?thesis
      by (intro conjI) (rule a rt [THEN conjunct1] b)+
  qed
  have 5: "files w q = None \<and> absent_error w q = FileNotFoundError \<longrightarrow>
            remove_leftover q w = (Returns (), emit (Unlink q) w)"
    by (simp add: remove_leftover_absent)
  show ?thesis
    by (intro conjI) (rule 1 2 3 5 | (rule impI, erule 4))+
qed

theorem tick_delete_failure_is_logged_not_fatal_witness:
  "files garbled_world ''/tmp/x/stop''
     = Some \<lparr>content = Some (''abc'' @ [CHR 0x0A]), removable = False\<rparr>
   \<and> new_events garbled_world
        (snd (check_status example_literals example_worker ''/tmp/x/restart'' ''/tmp/x/stop''
                garbled_world))
       = [Print ''Deleting stop file...'', Unlink ''/tmp/x/stop'',
          Print ''Unable to delete stop file.'',
          Print ''Terminating child process with PID 41'', Terminate 41, Wait 41,
          Print ''Bazarr exited with status code 0.'']
   \<and> fst (check_status example_literals example_worker ''/tmp/x/restart'' ''/tmp/x/stop''
            garbled_world) = SystemExit 0
   \<and> files restart_world ''/tmp/x/restart'' = Some \<lparr>content = Some [], removable = False\<rparr>
   \<and> files restart_world ''/tmp/x/stop'' = None
   \<and> new_events restart_world
        (snd (check_status example_literals example_worker ''/tmp/x/restart'' ''/tmp/x/stop''
                restart_world))
       = [Print ''Deleting restart file...'', Unlink ''/tmp/x/restart'',
          Print ''Unable to delete restart file.'',
          Print ''Terminating child process with PID 41'', Terminate 41, Wait 41,
          Print ''Bazarr is restarting...'',
          Popen [''/usr/bin/python3'', ''-u'', ''/opt/bazarr/bazarr/main.py'',
                 ''-c'', ''/tmp/x'', ''--debug''] 42,
          Print ''Bazarr starting child process with PID 42...'']
   \<and> remove_leftover ''/tmp/x/stop'' restart_world
       = (Returns (), emit (Unlink ''/tmp/x/stop'') restart_world)"
proof -
  have g: "files garbled_world ''/tmp/x/stop''
     = Some \<lparr>content = Some (''abc'' @ [CHR 0x0A]), removable = False\<rparr>"
    by (simp add: garbled_world_def)
  have r: "files restart_world ''/tmp/x/restart'' = Some \<lparr>content = Some [], removable = False\<rparr>"
    and s: "files restart_world ''/tmp/x/stop'' = None"
    by (simp_all add: restart_world_def)
  have code: "get_stop_status_code example_literals ''/tmp/x/stop'' garbled_world = 0"
    using py_int_abc
    by (simp add: get_stop_status_code_def garbled_world_def example_world_def example_literals_def)
  have w: "procs garbled_world (pid example_worker) = Some Running"
    "procs restart_world (pid example_worker) = Some Running"
    "popen_ok restart_world" "next_pid restart_world = 42"
    "python_path restart_world = ''/usr/bin/python3''"
    "main_script restart_world = ''/opt/bazarr/bazarr/main.py''"
    "argv restart_world = [''bazarr.py'', ''-c'', ''/tmp/x'', ''--debug'']"
    by (simp_all add: garbled_world_def restart_world_def example_world_def example_worker_def)
  have ae: "absent_error restart_world ''/tmp/x/stop'' = FileNotFoundError"
    by (simp add: restart_world_def example_world_def)
  have z: "str_int 0 = ''0''"
    by (simp add: str_int_def str_nat.simps digit_char_def)
  from tick_delete_failure_is_logged_not_fatal
         [OF g, of example_literals example_worker "''/tmp/x/restart''"]
    tick_delete_failure_is_logged_not_fatal
         [OF r, of example_literals example_worker _ "''/tmp/x/stop''" "''/tmp/x/stop''"]
    g r s code w z ae example_child_exits(3,4) example_worker_facts
  show ?thesis by simp
qed

text \<open>
  The claim as the specification words it covers the cleanup at startup too. There only
  \<^verbatim>\<open>FileNotFoundError\<close> is caught: a stale restart file that cannot be deleted ends
  \<^verbatim>\<open>main\<close> with the error, nothing is printed and no worker is spawned.
\<close>

lemma example_paths:
  "os_path_join restart_world (args_config_dir restart_world) (FILE_RESTART example_literals)
     = ''/tmp/x/restart''"
  "os_path_join restart_world (args_config_dir restart_world) (FILE_STOP example_literals)
     = ''/tmp/x/stop''"
  by (simp_all add: os_path_join_def startswith_def
        restart_world_def example_world_def example_literals_def)

lemma example_version:
  "check_python_version example_literals restart_world = (Returns (), restart_world)"
  by (simp add: check_python_version_def restart_world_def example_world_def)

lemma startup_stale:
  "startup example_literals restart_world
   = (Raises PermissionError,
      emit (Unlink ''/tmp/x/restart'')
        (putenv ''RESTARTFILE'' ''/tmp/x/restart''
           (putenv ''STOPFILE'' ''/tmp/x/stop'' (emit Signal_SIGINT restart_world))))"
proof -
  have f: "files (putenv ''RESTARTFILE'' ''/tmp/x/restart''
             (putenv ''STOPFILE'' ''/tmp/x/stop'' (emit Signal_SIGINT restart_world)))
             ''/tmp/x/restart''
           = Some \<lparr>content = Some [], removable = False\<rparr>"
    by (simp add: putenv_def restart_world_def)
  have e: "ENV_STOPFILE example_literals = ''STOPFILE''"
    "ENV_RESTARTFILE example_literals = ''RESTARTFILE''"
    by (simp_all add: example_literals_def)
  show ?thesis
    unfolding startup_def example_version
    by (simp only: bind_def prod.case outcome.case Let_def example_paths e
          remove_leftover_stuck [OF f] fnode.simps simp_thms)
qed

lemma startup_stale_trace:
  "trace (snd (startup example_literals restart_world))
   = [Signal_SIGINT, Putenv ''STOPFILE'' ''/tmp/x/stop'', Putenv ''RESTARTFILE'' ''/tmp/x/restart'',
      Unlink ''/tmp/x/restart'']"
  unfolding startup_stale by (simp add: putenv_def restart_world_def example_world_def)

theorem startup_cleanup_failure_is_fatal:
  "files restart_world ''/tmp/x/restart'' = Some \<lparr>content = Some [], removable = False\<rparr>
   \<and> fst (startup example_literals restart_world) = Raises PermissionError
   \<and> trace (snd (startup example_literals restart_world))
       = [Signal_SIGINT, Putenv ''STOPFILE'' ''/tmp/x/stop'',
          Putenv ''RESTARTFILE'' ''/tmp/x/restart'', Unlink ''/tmp/x/restart'']"
proof -
  have a: "files restart_world ''/tmp/x/restart'' = Some \<lparr>content = Some [], removable = False\<rparr>"
    by (simp add: restart_world_def)
  have b: "fst (startup example_literals restart_world) = Raises PermissionError"
    unfolding startup_stale by simp
  from a b startup_stale_trace show ?thesis by simp
qed

section \<open>The order of the startup sequence\<close>

lemma startup_idle_trace:
  "trace (snd (startup example_literals idle_world))
   = [Signal_SIGINT, Putenv ''STOPFILE'' ''/tmp/x/stop'', Putenv ''RESTARTFILE'' ''/tmp/x/restart'',
      Unlink ''/tmp/x/restart'', Unlink ''/tmp/x/stop'',
      Popen [''/usr/bin/python3'', ''-u'', ''/opt/bazarr/bazarr/main.py'',
             ''-c'', ''/tmp/x'', ''--debug''] 42,
      Print ''Bazarr starting child process with PID 42...'']"
  by (simp add: startup_def bind_def check_python_version_def idle_world_def example_world_def
        example_literals_def os_path_join_def
        startswith_def putenv_def remove_leftover_def os_remove_def start_bazarr_def print_def
        Let_def str_nat.simps digit_char_def)

text \<open>
  C7, as the code has it. When the startup sequence completes, the steps after the version
  check are, in this order: the interrupt handler is installed; the restart and stop paths,
  resolved from the configuration directory, are put into the environment, the stop path
  first; the stale restart file and then the stale stop file are deleted; the first worker is
  spawned. The handler is thus installed first, before anything else, and not after the spawn.
\<close>

theorem startup_order:
  assumes "startup L w = (Returns (child, rf, sf), w')"
  shows "rf = os_path_join w (args_config_dir w) (FILE_RESTART L)
       \<and> sf = os_path_join w (args_config_dir w) (FILE_STOP L)
       \<and> trace w' = trace (snd (check_python_version L w))
           @ [Signal_SIGINT, Putenv (ENV_STOPFILE L) sf, Putenv (ENV_RESTARTFILE L) rf,
              Unlink rf, Unlink sf, Popen (args child) (pid child),
              Print (''Bazarr starting child process with PID '' @ str_nat (pid child) @ ''...'')]
       \<and> environ w' = (environ w)(ENV_STOPFILE L \<mapsto> sf, ENV_RESTARTFILE L \<mapsto> rf)
       \<and> files w' rf = None \<and> files w' sf = None
       \<and> \<not> spec_handler_last (new_events (snd (check_python_version L w)) w')"
proof -
  note r = startup_returns [OF assms]
  note a = r [THEN conjunct1]
  note b = r [THEN conjunct2, THEN conjunct1]
  note c = r [THEN conjunct2, THEN conjunct2, THEN conjunct1]
  note d = r [THEN conjunct2, THEN conjunct2, THEN conjunct2, THEN conjunct1]
  note e = r [THEN conjunct2, THEN conjunct2, THEN conjunct2, THEN conjunct2, THEN conjunct1]
  note f = r [THEN conjunct2, THEN conjunct2, THEN conjunct2, THEN conjunct2, THEN conjunct2,
              THEN conjunct1]
  have "new_events (snd (check_python_version L w)) w'
        = [Signal_SIGINT, Putenv (ENV_STOPFILE L) sf, Putenv (ENV_RESTARTFILE L) rf,
              Unlink rf, Unlink sf, Popen (args child) (pid child),
              Print (''Bazarr starting child process with PID '' @ str_nat (pid child) @ ''...'')]"
    unfolding new_events_def c by simp
  then have g: "\<not> spec_handler_last (new_events (snd (check_python_version L w)) w')"
    by (simp add: spec_handler_last_def is_popen_def)
  show ?thesis
    by (intro conjI) (rule a b c d e f g)+
qed

theorem startup_order_witness:
  "startup example_literals idle_world
   = (Returns (\<lparr>pid = 42, args = [''/usr/bin/python3'', ''-u'', ''/opt/bazarr/bazarr/main.py'',
                                     ''-c'', ''/tmp/x'', ''--debug'']\<rparr>,
               ''/tmp/x/restart'', ''/tmp/x/stop''),
      snd (startup example_literals idle_world))
   \<and> environ (snd (startup example_literals idle_world))
       = [''STOPFILE'' \<mapsto> ''/tmp/x/stop'', ''RESTARTFILE'' \<mapsto> ''/tmp/x/restart'']
   \<and> trace (snd (startup example_literals idle_world))
       = [Signal_SIGINT, Putenv ''STOPFILE'' ''/tmp/x/stop'',
          Putenv ''RESTARTFILE'' ''/tmp/x/restart'',
          Unlink ''/tmp/x/restart'', Unlink ''/tmp/x/stop'',
          Popen [''/usr/bin/python3'', ''-u'', ''/opt/bazarr/bazarr/main.py'',
                 ''-c'', ''/tmp/x'', ''--debug''] 42,
          Print ''Bazarr starting child process with PID 42...'']"
proof -
  have v: "snd (check_python_version example_literals idle_world) = idle_world"
    by (simp add: check_python_version_def idle_world_def example_world_def)
  have e: "environ idle_world = Map.empty" "trace idle_world = []"
    "ENV_STOPFILE example_literals = ''STOPFILE''"
    "ENV_RESTARTFILE example_literals = ''RESTARTFILE''"
    by (simp_all add: idle_world_def example_world_def example_literals_def)
  have n: "str_nat 42 = ''42''"
    by (simp add: str_nat.simps digit_char_def)
  from startup_order [OF startup_idle] v e n startup_idle show ?thesis by simp
qed

text \<open>
  The claim as the specification words it puts the installation of the handler last. In
  the startup of the example without stale files the handler is the first step and the spawn
  the last.
\<close>

theorem handler_is_installed_first:
  "trace (snd (startup example_literals idle_world))
   = [Signal_SIGINT, Putenv ''STOPFILE'' ''/tmp/x/stop'', Putenv ''RESTARTFILE'' ''/tmp/x/restart'',
      Unlink ''/tmp/x/restart'', Unlink ''/tmp/x/stop'',
      Popen [''/usr/bin/python3'', ''-u'', ''/opt/bazarr/bazarr/main.py'',
             ''-c'', ''/tmp/x'', ''--debug''] 42,
      Print ''Bazarr starting child process with PID 42...'']
   \<and> \<not> spec_handler_last (trace (snd (startup example_literals idle_world)))"
  unfolding startup_idle_trace by (simp add: spec_handler_last_def is_popen_def)

section \<open>The interrupt handler\<close>

text \<open>A decimal numeral consists of digits, is not empty, and determines its number.\<close>

lemma digit_char_digit: "is_digit (digit_char d)"
  unfolding is_digit_def digit_char_def by (rule nth_mem) simp

lemma digit_not_space: "is_digit c \<Longrightarrow> \<not> str_space c"
  by (auto simp: is_digit_def str_space_def int_space_def)

lemma digit_val_char: "k < 10 \<Longrightarrow> digit_val (''0123456789'' ! k) = k"
proof -
  assume "k < 10"
  then have "k \<in> {0, 1, 2, 3, 4, 5, 6, 7, 8, 9}" by auto
  then show ?thesis
    by (auto simp: digit_val_def)
qed

lemma str_nat_digits: "list_all is_digit (str_nat n)"
proof (induction n rule: str_nat.induct)
  case (1 n)
  then show ?case
    by (subst str_nat.simps) (simp add: digit_char_digit)
qed

lemma str_nat_nonempty: "str_nat n \<noteq> []"
  by (subst str_nat.simps) simp

lemma str_nat_value: "foldl (\<lambda>a c. 10 * a + digit_val c) 0 (str_nat n) = n"
proof (induction n rule: str_nat.induct)
  case (1 n)
  show ?case
  proof (cases "n < 10")
    case True
    then show ?thesis
      by (subst str_nat.simps) (simp add: digit_char_def digit_val_char)
  next
    case False
    with 1 show ?thesis
      by (subst str_nat.simps) (simp add: digit_char_def digit_val_char)
  qed
qed

lemma str_nat_inj: "str_nat m = str_nat n \<Longrightarrow> m = n"
  by (metis str_nat_value)

lemma split_from_word:
  "\<forall>c \<in> set s. \<not> str_space c \<Longrightarrow> split_from cur (s @ rest) = split_from (cur @ s) rest"
  by (induction s arbitrary: cur) simp_all

lemma split_from_after:
  "str_space c \<Longrightarrow> set (split_from [] rest) \<subseteq> set (split_from cur (a @ c # rest))"
proof (induction a arbitrary: cur)
  case Nil
  then show ?case by auto
next
  case (Cons x a)
  then show ?case by (cases "str_space x") auto
qed

lemma split_lines:
  "split_from [] (concat (map (\<lambda>q. str_nat q @ [CHR 0x0A]) qs)) = map str_nat qs"
proof (induction qs)
  case Nil
  then show ?case by simp
next
  case (Cons q qs)
  have w: "\<forall>c \<in> set (str_nat q). \<not> str_space c"
    using str_nat_digits [of q] digit_not_space by (auto simp: list_all_iff)
  have sp: "str_space (CHR 0x0A)"
    by (simp add: str_space_def int_space_def)
  show ?case
    using Cons split_from_word [OF w, of "[]"] sp str_nat_nonempty [of q] by simp
qed

text \<open>
  What the probe answers: nothing is asked on a platform without a listing command; on the
  others, when the command can be started, the answer is whether the process identifier is
  in use and shown by the listing.
\<close>

lemma ps_tokens:
  "py_split (ps_stdout w) = ''PID'' # map str_nat (filter (listed w) (pids w))"
  by (simp add: py_split_def ps_stdout_def str_space_def int_space_def split_lines)

lemma not_number: "\<not> list_all is_digit t \<Longrightarrow> str_nat p \<noteq> t"
  using str_nat_digits [of p] by auto

lemma ps_answer:
  "str_nat p \<in> set (py_split (ps_stdout w)) \<longleftrightarrow> p \<in> set (pids w) \<and> listed w p"
proof -
  have "str_nat p \<noteq> ''PID''"
    by (rule not_number) (simp add: is_digit_def)
  then show ?thesis
    unfolding ps_tokens using str_nat_inj by auto
qed

lemma tasklist_answer:
  "str_nat p \<in> set (py_split (tasklist_stdout w (''PID eq '' @ str_nat p)))
   \<longleftrightarrow> p \<in> set (pids w) \<and> listed w p"
proof (cases "find (\<lambda>q. ''PID eq '' @ str_nat p = ''PID eq '' @ str_nat q \<and> listed w q) (pids w)")
  case None
  then have no: "\<not> (p \<in> set (pids w) \<and> listed w p)"
    by (auto simp: find_None_iff)
  have tok: "py_split (tasklist_stdout w (''PID eq '' @ str_nat p))
        = [''INFO:'', ''No'', ''tasks'', ''are'', ''running'', ''which'', ''match'', ''the'',
           ''specified'', ''criteria.'']"
    unfolding tasklist_stdout_def None
    by (simp add: py_split_def str_space_def int_space_def)
  have "str_nat p \<notin> set [''INFO:'', ''No'', ''tasks'', ''are'', ''running'', ''which'', ''match'',
           ''the'', ''specified'', ''criteria.'']"
    using str_nat_digits [of p] by (auto simp: is_digit_def)
  with no tok show ?thesis by simp
next
  case (Some q)
  then have q: "q \<in> set (pids w)" "listed w q" "str_nat p = str_nat q"
    by (auto simp: find_Some_iff in_set_conv_nth)
  then have pq: "p = q"
    using str_nat_inj by blast
  have w: "\<forall>c \<in> set (str_nat q). \<not> str_space c"
    using str_nat_digits [of q] digit_not_space by (auto simp: list_all_iff)
  have sp: "str_space (CHR '' '')"
    by (simp add: str_space_def int_space_def)
  have "split_from [] (str_nat q @ CHR '' '' # rest) = str_nat q # split_from [] rest" for rest
    using split_from_word [OF w, of "[]"] sp str_nat_nonempty [of q] by simp
  then have "str_nat q \<in> set (split_from [] (a @ CHR '' '' # str_nat q @ CHR '' '' # rest))"
    for a rest
    using split_from_after [OF sp, of "str_nat q @ CHR '' '' # rest" "[]" a] by auto
  from this [of "[CHR 0x0A] @ ''Image Name PID Session Name Session# Mem Usage'' @ [CHR 0x0A]
          @ ''========== === ============ ======== =========='' @ [CHR 0x0A] @ task_image w q"
          "''Console 1 '' @ task_mem w q @ '' K'' @ [CHR 0x0A]"]
  have "str_nat q \<in> set (py_split (tasklist_stdout w (''PID eq '' @ str_nat p)))"
    unfolding tasklist_stdout_def Some py_split_def by simp
  with q pq show ?thesis by simp
qed

lemma probe_answer:
  "is_process_running p w =
     (if \<not> supported_platform w then (Returns False, print ''Unsupported OS'' w)
      else if \<not> probe_ok w then (Raises FileNotFoundError, w)
      else (Returns (p \<in> set (pids w) \<and> listed w p), emit (Run (probe_command w p)) w))"
proof -
  consider (win) "startswith (platform w) ''win''"
    | (linux) "\<not> startswith (platform w) ''win''" "startswith (platform w) ''linux''"
    | (darwin) "\<not> startswith (platform w) ''win''" "\<not> startswith (platform w) ''linux''"
        "startswith (platform w) ''darwin''"
    | (other) "\<not> supported_platform w"
    by (auto simp: supported_platform_def)
  then show ?thesis
  proof cases
    case win
    then show ?thesis
      using tasklist_answer [of p w]
      by (simp add: is_process_running_def commands_def supported_platform_def probe_command_def
            subprocess_run_def bind_def)
  next
    case linux
    then show ?thesis
      using ps_answer [of p w]
      by (simp add: is_process_running_def commands_def supported_platform_def probe_command_def
            subprocess_run_def bind_def)
  next
    case darwin
    then show ?thesis
      using ps_answer [of p w]
      by (simp add: is_process_running_def commands_def supported_platform_def probe_command_def
            subprocess_run_def bind_def)
  next
    case other
    then show ?thesis
      by (simp add: is_process_running_def commands_def supported_platform_def)
  qed
qed




text \<open>
  A worker that has exited on its own and has not been waited for is still shown by
  \<^verbatim>\<open>ps\<close>: on Linux the handler goes on swallowing the interrupt.
\<close>

lemma unreaped_worker_is_still_listed:
  "procs defunct_world (pid example_worker) = Some (Exited 0)
   \<and> fst (interrupt_handler example_literals 2 example_worker True defunct_world) = Returns ()"
  by (simp add: interrupt_handler_def probe_answer supported_platform_def startswith_def
        listed_def defunct_world_def idle_world_def example_world_def example_worker_def)

end
